theory Spec2Isabelle
  imports Main "HOL-Library.Sublist" "HOL-Library.AList"
begin

section \<open>Python strings\<close>

text \<open>
  Python \<open>str\<close> values are modelled as HOL strings: the characters of a text in UTF-8,
  in which one text is a substring of another exactly when it is so character by
  character. \<open>str.lower\<close>, \<open>str.upper\<close> and \<open>str.title\<close> are functions of the Python library,
  defined on all of Unicode. The functions \<open>lower\<close>, \<open>upper\<close> and \<open>title\<close> of this section are
  these mappings on ASCII text (\<open>ascii\<close>: every character is below 128): they map the ASCII
  letters and leave every other character as it is. The functions of the orchestrator
  that call \<open>str.lower\<close> and \<open>str.title\<close> take the two library functions as a parameter, a
  record \<open>py_str\<close>; \<open>ascii_str\<close> is that record with the ASCII mappings.
\<close>

definition upper_letters :: string where
  "upper_letters = ''ABCDEFGHIJKLMNOPQRSTUVWXYZ''"

definition lower_letters :: string where
  "lower_letters = ''abcdefghijklmnopqrstuvwxyz''"

definition char_lower :: "char \<Rightarrow> char" where
  "char_lower c = (case map_of (zip upper_letters lower_letters) c of Some d \<Rightarrow> d | None \<Rightarrow> c)"

definition char_upper :: "char \<Rightarrow> char" where
  "char_upper c = (case map_of (zip lower_letters upper_letters) c of Some d \<Rightarrow> d | None \<Rightarrow> c)"

definition lower :: "string \<Rightarrow> string" where
  "lower s = map char_lower s"

text \<open>\<open>str.title\<close>: the first letter of every run of letters in upper case, the rest in lower case.\<close>

fun title_from :: "bool \<Rightarrow> string \<Rightarrow> string" where
  "title_from previous_is_cased [] = []"
| "title_from previous_is_cased (c # cs) =
     (if c \<in> set lower_letters then
        (if previous_is_cased then c else char_upper c) # title_from True cs
      else if c \<in> set upper_letters then
        (if previous_is_cased then char_lower c else c) # title_from True cs
      else c # title_from False cs)"

definition title :: "string \<Rightarrow> string" where
  "title s = title_from False s"

definition upper :: "string \<Rightarrow> string" where
  "upper s = map char_upper s"

definition ascii :: "string \<Rightarrow> bool" where
  "ascii s = list_all (\<lambda>c. \<not> digit7 c) s"

record py_str =
  str_lower :: "string \<Rightarrow> string"
  str_title :: "string \<Rightarrow> string"

definition ascii_str :: py_str where
  "ascii_str = \<lparr>str_lower = lower, str_title = title\<rparr>"

text \<open>\<open>sep.join(xs)\<close>.\<close>

fun join :: "string \<Rightarrow> string list \<Rightarrow> string" where
  "join sep [] = []"
| "join sep [x] = x"
| "join sep (x # y # ys) = x @ sep @ join sep (y # ys)"

text \<open>\<open>t in s\<close> on strings: \<open>t\<close> occurs in \<open>s\<close> as a contiguous substring.\<close>

fun str_contains :: "string \<Rightarrow> string \<Rightarrow> bool" where
  "str_contains [] t = (t = [])"
| "str_contains (c # cs) t = (prefix t (c # cs) \<or> str_contains cs t)"

definition apostrophe :: string where
  "apostrophe = [CHR 0x27]"

section \<open>Exceptions, messages and the model\<close>

text \<open>
  A raised Python exception is a value. \<open>exn\<close> are the exceptions derived from \<open>Exception\<close>:
  \<open>HttpError\<close> of the Google API client with the status of its response (when it has one)
  and its text, or any other one with its class name and its text. \<open>str_exn\<close> is \<open>str(e)\<close>.
  The chat model, the tools and the remote services raise exceptions of this kind.
\<close>

datatype exn = HttpError "nat option" string | PyError string string

fun str_exn :: "exn \<Rightarrow> string" where
  "str_exn (HttpError status text) = text"
| "str_exn (PyError cls text) = text"

text \<open>
  What a call of a sub-agent can raise, as the orchestrator sees it: \<open>Exception e\<close> is an
  exception derived from \<open>Exception\<close>, which a handler \<open>except Exception\<close> catches;
  \<open>BaseException cls text\<close> is an exception of a class outside \<open>Exception\<close>
  (\<open>KeyboardInterrupt\<close>, \<open>SystemExit\<close>, \<open>GeneratorExit\<close>), with the name of its class and its
  text, which such a handler lets through.
\<close>

datatype raised = Exception exn | BaseException string string

record tool_call =
  tc_name :: string
  tc_args :: "(string \<times> string) list"
  tc_id :: string

datatype message =
    SystemMessage string
  | HumanMessage string
  | AIMessage string "tool_call list"
  | ToolMessage string string

fun message_content :: "message \<Rightarrow> string" where
  "message_content (SystemMessage c) = c"
| "message_content (HumanMessage c) = c"
| "message_content (AIMessage c tcs) = c"
| "message_content (ToolMessage c tid) = c"

fun is_SystemMessage :: "message \<Rightarrow> bool" where
  "is_SystemMessage (SystemMessage c) = True"
| "is_SystemMessage m = False"

fun is_AIMessage :: "message \<Rightarrow> bool" where
  "is_AIMessage (AIMessage c tcs) = True"
| "is_AIMessage m = False"

text \<open>
  The response of a chat model: its text and its tool calls (none: the empty list).
  The model itself is outside the program: \<open>'w\<close> is the state of everything outside
  (the model server, the remote services), and invoking the model on a history either
  raises or returns a response, and changes the outside.
\<close>

record ai_response =
  content :: string
  tool_calls :: "tool_call list"

type_synonym 'w llm = "message list \<Rightarrow> 'w \<Rightarrow> (exn + ai_response) \<times> 'w"

section \<open>The orchestrator (orchestration\_agent.py)\<close>

record OrchestrationState =
  messages :: "message list"
  current_task :: "string option"
  delegated_to :: "string option"
  task_complete :: bool

text \<open>
  A registered sub-agent: \<open>agent\<close> is what \<open>agent.process_request(task)\<close> does (\<open>None\<close>: it
  never returns), \<open>triggers\<close> its trigger phrases. \<open>sub_agents\<close> is the dict of the
  orchestrator, in insertion order.
\<close>

record 'w sub_agent_config =
  agent :: "string option \<Rightarrow> 'w \<Rightarrow> ((raised + string) \<times> 'w) option"
  triggers :: "string list"

record 'w ConversationalOrchestrator =
  model :: "'w llm"
  sub_agents :: "(string \<times> 'w sub_agent_config) list"
  memory :: "string \<rightharpoonup> OrchestrationState"
  graph :: "(string \<times> string) list option"

definition ConversationalOrchestrator_init :: "'w llm \<Rightarrow> 'w ConversationalOrchestrator" where
  "ConversationalOrchestrator_init chat_model =
     \<lparr>model = chat_model, sub_agents = [], memory = Map.empty, graph = None\<rparr>"

definition add_sub_agent ::
  "'w ConversationalOrchestrator \<Rightarrow> string \<Rightarrow>
   (string option \<Rightarrow> 'w \<Rightarrow> ((raised + string) \<times> 'w) option) \<Rightarrow> string list \<Rightarrow>
   'w ConversationalOrchestrator" where
  "add_sub_agent self agent_name a trigger_list =
     self\<lparr>sub_agents :=
       AList.update agent_name \<lparr>agent = a, triggers = trigger_list\<rparr> (sub_agents self)\<rparr>"

text \<open>
  \<open>_should_delegate\<close>: the inner loop over the triggers of one sub-agent, the outer loop
  over the sub-agents, returning at the first hit. \<open>str_lower\<close> is \<open>str.lower\<close>.
\<close>

fun trigger_in_message_with :: "(string \<Rightarrow> string) \<Rightarrow> string list \<Rightarrow> string \<Rightarrow> bool" where
  "trigger_in_message_with lower_case [] message_lower = False"
| "trigger_in_message_with lower_case (trigger # rest) message_lower =
     (if str_contains message_lower (lower_case trigger) then True
      else trigger_in_message_with lower_case rest message_lower)"

fun first_matching_agent_with ::
  "(string \<Rightarrow> string) \<Rightarrow> (string \<times> 'w sub_agent_config) list \<Rightarrow> string \<Rightarrow> string option" where
  "first_matching_agent_with lower_case [] message_lower = None"
| "first_matching_agent_with lower_case ((agent_name, config) # rest) message_lower =
     (if trigger_in_message_with lower_case (triggers config) message_lower then Some agent_name
      else first_matching_agent_with lower_case rest message_lower)"

definition should_delegate_with ::
  "py_str \<Rightarrow> 'w ConversationalOrchestrator \<Rightarrow> string \<Rightarrow> string option" where
  "should_delegate_with py self user_message =
     (let message_lower = str_lower py user_message
      in first_matching_agent_with (str_lower py) (sub_agents self) message_lower)"

text \<open>The same on ASCII text.\<close>

definition trigger_in_message :: "string list \<Rightarrow> string \<Rightarrow> bool" where
  "trigger_in_message = trigger_in_message_with lower"

definition first_matching_agent :: "(string \<times> 'w sub_agent_config) list \<Rightarrow> string \<Rightarrow> string option" where
  "first_matching_agent = first_matching_agent_with lower"

definition should_delegate :: "'w ConversationalOrchestrator \<Rightarrow> string \<Rightarrow> string option" where
  "should_delegate = should_delegate_with ascii_str"

text \<open>\<open>_get_system_prompt\<close> of the orchestrator.\<close>

definition agent_description :: "string \<times> 'w sub_agent_config \<Rightarrow> string" where
  "agent_description entry =
     (case entry of (agent_name, config) \<Rightarrow>
        ''- '' @ agent_name @ '': handles tasks containing '' @
        join '', '' (map (\<lambda>t. apostrophe @ t @ apostrophe) (triggers config)))"

definition get_system_prompt :: "'w ConversationalOrchestrator \<Rightarrow> string" where
  \<open>get_system_prompt self =
    (let agent_descriptions = map agent_description (sub_agents self);
         agents_list = (if agent_descriptions \<noteq> [] then join ''\<newline>'' agent_descriptions
                        else ''No specialized agents available'')
     in
     ''You are a helpful conversational assistant that can chat about any topic and delegate specialized tasks to sub-agents when needed.\<newline>'' @
     ''\<newline>'' @
     ''        Your capabilities:\<newline>'' @
     ''        1. Have natural conversations about any topic\<newline>'' @
     ''        2. Answer questions using your knowledge\<newline>'' @
     ''        3. Delegate to specialized agents when users ask for specific tasks\<newline>'' @
     ''\<newline>'' @
     ''        Available specialized agents:\<newline>'' @
     ''        '' @ agents_list @ ''\<newline>'' @
     ''\<newline>'' @
     ''        IMPORTANT: Only delegate to a specialized agent when the user explicitly asks for that specific task. \<newline>'' @
     ''        For general questions or conversations, respond directly.\<newline>'' @
     ''\<newline>'' @
     ''        When you need to delegate:\<newline>'' @
     ''        - Set the task description clearly\<newline>'' @
     ''        - Indicate which agent should handle it\<newline>'' @
     ''        - Let the user know you're delegating\<newline>'' @
     ''\<newline>'' @
     ''        Otherwise, just have a friendly conversation!'')\<close>

text \<open>
  \<open>orchestrator_node\<close>. The node returns a state update (a value for each of the four
  keys) or raises: \<open>messages[-1]\<close> on an empty history, or the model call. \<open>if delegate_to\<close>
  is Python truth: a name that is not \<open>None\<close> and not the empty string.
\<close>

definition respond_conversationally ::
  "'w ConversationalOrchestrator \<Rightarrow> message list \<Rightarrow> 'w \<Rightarrow> (exn + OrchestrationState) \<times> 'w" where
  "respond_conversationally self msgs w =
     (case model self msgs w of
        (Inl e, w') \<Rightarrow> (Inl e, w')
      | (Inr response, w') \<Rightarrow>
          (Inr \<lparr>messages = [AIMessage (content response) (tool_calls response)],
                current_task = None, delegated_to = None, task_complete = True\<rparr>, w'))"

definition delegation_update_with :: "py_str \<Rightarrow> string \<Rightarrow> string \<Rightarrow> OrchestrationState" where
  \<open>delegation_update_with py delegate_to task =
     (let agent_name = str_title py delegate_to;
          response_content =
            ''I'll help you with that '' @ agent_name @
            '' task. Let me process your request...\<newline>\<newline>Delegating to '' @ agent_name @
            '' agent...''
      in \<lparr>messages = [AIMessage response_content []],
          current_task = Some task, delegated_to = Some delegate_to, task_complete = False\<rparr>)\<close>

definition orchestrator_node_with ::
  "py_str \<Rightarrow> 'w ConversationalOrchestrator \<Rightarrow> OrchestrationState \<Rightarrow> 'w \<Rightarrow>
   (exn + OrchestrationState) \<times> 'w" where
  "orchestrator_node_with py self state w =
     (if messages state = [] then (Inl (PyError ''IndexError'' ''list index out of range''), w)
      else
        let last_message = last (messages state);
            system_message = filter is_SystemMessage (messages state);
            msgs = (if system_message = [] then SystemMessage (get_system_prompt self) # messages state
                    else messages state)
        in case last_message of
             HumanMessage text \<Rightarrow>
               (case should_delegate_with py self text of
                  Some delegate_to \<Rightarrow>
                    if delegate_to \<noteq> [] then (Inr (delegation_update_with py delegate_to text), w)
                    else respond_conversationally self msgs w
                | None \<Rightarrow> respond_conversationally self msgs w)
           | _ \<Rightarrow> respond_conversationally self msgs w)"

text \<open>
  \<open>create_delegation_node(agent_name)\<close>: the node for one sub-agent. The sub-agent's
  \<open>process_request\<close> returns a text, raises, or never returns (\<open>None\<close>). The handler of the
  node is \<open>except Exception\<close>: an exception outside \<open>Exception\<close> leaves the node. The text of
  the \<open>KeyError\<close> is the name in apostrophes.
\<close>

definition delegation_node_with ::
  "py_str \<Rightarrow> 'w ConversationalOrchestrator \<Rightarrow> string \<Rightarrow> OrchestrationState \<Rightarrow> 'w \<Rightarrow>
   ((raised + OrchestrationState) \<times> 'w) option" where
  \<open>delegation_node_with py self agent_name state w =
     (case map_of (sub_agents self) agent_name of
        None \<Rightarrow>
          Some (Inl (Exception (PyError ''KeyError'' (apostrophe @ agent_name @ apostrophe))), w)
      | Some config \<Rightarrow>
          (case agent config (current_task state) w of
             None \<Rightarrow> None
           | Some (Inr result, w') \<Rightarrow>
               Some (Inr \<lparr>messages =
                            [AIMessage (str_title py agent_name @
                                        '' task completed:\<newline>\<newline>'' @ result) []],
                          current_task = None, delegated_to = None, task_complete = True\<rparr>, w')
           | Some (Inl (Exception e), w') \<Rightarrow>
               Some (Inr \<lparr>messages =
                            [AIMessage (''Error processing '' @ str_title py agent_name @
                                        '' task: '' @ str_exn e) []],
                          current_task = None, delegated_to = None, task_complete = True\<rparr>, w')
           | Some (Inl (BaseException cls text), w') \<Rightarrow>
               Some (Inl (BaseException cls text), w')))\<close>

text \<open>The two nodes on ASCII text.\<close>

definition delegation_update :: "string \<Rightarrow> string \<Rightarrow> OrchestrationState" where
  "delegation_update = delegation_update_with ascii_str"

definition orchestrator_node ::
  "'w ConversationalOrchestrator \<Rightarrow> OrchestrationState \<Rightarrow> 'w \<Rightarrow> (exn + OrchestrationState) \<times> 'w" where
  "orchestrator_node = orchestrator_node_with ascii_str"

definition delegation_node ::
  "'w ConversationalOrchestrator \<Rightarrow> string \<Rightarrow> OrchestrationState \<Rightarrow> 'w \<Rightarrow>
   ((raised + OrchestrationState) \<times> 'w) option" where
  "delegation_node = delegation_node_with ascii_str"

definition END :: string where
  "END = ''__end__''"

definition should_continue :: "OrchestrationState \<Rightarrow> string" where
  "should_continue state =
     (case delegated_to state of
        Some d \<Rightarrow> if d \<noteq> [] then ''delegate_'' @ d else END
      | None \<Rightarrow> END)"

text \<open>
  State updates are merged into the state by the graph library: \<open>messages\<close> has the
  \<open>add_messages\<close> reducer (new messages are appended), every other key is overwritten.
\<close>

definition apply_update :: "OrchestrationState \<Rightarrow> OrchestrationState \<Rightarrow> OrchestrationState" where
  "apply_update state update =
     \<lparr>messages = messages state @ messages update,
      current_task = current_task update,
      delegated_to = delegated_to update,
      task_complete = task_complete update\<rparr>"

text \<open>
  \<open>build_graph\<close>: the entry node \<open>orchestrator\<close>, one node \<open>delegate_<name>\<close> for each sub-agent
  registered when the graph is built, each with an edge to \<open>END\<close>, and the conditional edge
  after the orchestrator chosen by \<open>should_continue\<close>. The compiled graph is kept as the
  table of its delegation nodes: node name and the agent name its closure holds.
\<close>

definition delegation_nodes :: "'w ConversationalOrchestrator \<Rightarrow> (string \<times> string) list" where
  "delegation_nodes self =
     map (\<lambda>(agent_name, config). (''delegate_'' @ agent_name, agent_name)) (sub_agents self)"

definition build_graph :: "'w ConversationalOrchestrator \<Rightarrow> 'w ConversationalOrchestrator" where
  "build_graph self = self\<lparr>graph := Some (delegation_nodes self)\<rparr>"

text \<open>
  One run of the compiled graph from a state: the orchestrator node, the conditional edge,
  and the delegation node it names when it is not \<open>END\<close>. A node that raises ends the run
  with that exception; a route to a node the graph does not have is an error of the graph
  library.
\<close>

definition graph_invoke_with ::
  "py_str \<Rightarrow> 'w ConversationalOrchestrator \<Rightarrow> (string \<times> string) list \<Rightarrow> OrchestrationState \<Rightarrow>
   'w \<Rightarrow> ((raised + OrchestrationState) \<times> 'w) option" where
  "graph_invoke_with py self nodes state0 w =
     (case orchestrator_node_with py self state0 w of
        (Inl e, w1) \<Rightarrow> Some (Inl (Exception e), w1)
      | (Inr update1, w1) \<Rightarrow>
          (let state1 = apply_update state0 update1;
               next_node = should_continue state1
           in if next_node = END then Some (Inr state1, w1)
              else case map_of nodes next_node of
                     None \<Rightarrow> Some (Inl (Exception (PyError ''KeyError'' next_node)), w1)
                   | Some agent_name \<Rightarrow>
                       (case delegation_node_with py self agent_name state1 w1 of
                          None \<Rightarrow> None
                        | Some (Inl e, w2) \<Rightarrow> Some (Inl e, w2)
                        | Some (Inr update2, w2) \<Rightarrow> Some (Inr (apply_update state1 update2), w2))))"

definition graph_invoke ::
  "'w ConversationalOrchestrator \<Rightarrow> (string \<times> string) list \<Rightarrow> OrchestrationState \<Rightarrow> 'w \<Rightarrow>
   ((raised + OrchestrationState) \<times> 'w) option" where
  "graph_invoke = graph_invoke_with ascii_str"

text \<open>
  The state a run starts from: the input of the turn merged, as an update, into the state
  the checkpointer holds for the thread (none on the first turn of a thread).
\<close>

definition checkpoint_merge :: "OrchestrationState option \<Rightarrow> OrchestrationState \<Rightarrow> OrchestrationState" where
  "checkpoint_merge saved input_state =
     (case saved of None \<Rightarrow> input_state | Some state \<Rightarrow> apply_update state input_state)"

text \<open>
  \<open>chat\<close>: builds the graph on first use (\<open>nodes\<close> is the graph that runs: the one just
  built, or the one built earlier), runs it on the turn's input and returns the text of
  the last AI message. The result is the answer and the orchestrator after the
  turn, or the exception the run raised (what the checkpointer holds after a turn that
  raised is left out); \<open>None\<close> when a sub-agent never returns. \<open>graph_invoke\<close> and \<open>chat\<close>
  are the run and the turn on ASCII text.
\<close>

definition chat_with ::
  "py_str \<Rightarrow> 'w ConversationalOrchestrator \<Rightarrow> string \<Rightarrow> string \<Rightarrow> 'w \<Rightarrow>
   ((raised + string \<times> 'w ConversationalOrchestrator) \<times> 'w) option" where
  "chat_with py self0 message thread_id w =
     (let self = (case graph self0 of None \<Rightarrow> build_graph self0 | Some nodes \<Rightarrow> self0);
          nodes = (case graph self0 of None \<Rightarrow> delegation_nodes self0 | Some nodes \<Rightarrow> nodes);
          initial_state = \<lparr>messages = [HumanMessage message], current_task = None,
                           delegated_to = None, task_complete = False\<rparr>
      in case graph_invoke_with py self nodes
                (checkpoint_merge (memory self thread_id) initial_state) w of
           None \<Rightarrow> None
         | Some (Inl e, w') \<Rightarrow> Some (Inl e, w')
         | Some (Inr result, w') \<Rightarrow>
             (let ai_messages = filter is_AIMessage (messages result)
              in Some (Inr (if ai_messages \<noteq> [] then message_content (last ai_messages)
                            else ''No response generated'',
                            self\<lparr>memory := (memory self)(thread_id \<mapsto> result)\<rparr>), w')))"

definition chat ::
  "'w ConversationalOrchestrator \<Rightarrow> string \<Rightarrow> string \<Rightarrow> 'w \<Rightarrow>
   ((raised + string \<times> 'w ConversationalOrchestrator) \<times> 'w) option" where
  "chat = chat_with ascii_str"

text \<open>\<open>create_orchestrator_with_agents\<close> and its two trigger lists.\<close>

definition gmail_triggers :: "string list" where
  "gmail_triggers =
     [''email'', ''gmail'', ''draft'', ''compose'', ''send mail'',
      ''search mail'', ''search email'', ''label email'',
      ''categorize email'', ''organize email'', ''find email'']"

definition calendar_triggers :: "string list" where
  "calendar_triggers =
     [''calendar'', ''meeting'', ''appointment'', ''event'', ''schedule'',
      ''book time'', ''set up meeting'', ''create event'', ''add to calendar'',
      ''check calendar'', ''free time'', ''availability'', ''busy'',
      ''reschedule'', ''cancel meeting'', ''update event'', ''find meetings'',
      ''team standup'', ''recurring meeting'', ''all-day event'']"

definition create_orchestrator_with_agents ::
  "(string option \<Rightarrow> 'w \<Rightarrow> ((raised + string) \<times> 'w) option) \<Rightarrow>
   (string option \<Rightarrow> 'w \<Rightarrow> ((raised + string) \<times> 'w) option) \<Rightarrow> 'w llm \<Rightarrow>
   'w ConversationalOrchestrator" where
  "create_orchestrator_with_agents gmail_agent calendar_agent chat_model =
     (let orchestrator = ConversationalOrchestrator_init chat_model;
          orchestrator = add_sub_agent orchestrator ''gmail'' gmail_agent gmail_triggers;
          orchestrator = add_sub_agent orchestrator ''calendar'' calendar_agent calendar_triggers
      in orchestrator)"

section \<open>The agent loop (gmail\_agent.py, calendar\_agent.py)\<close>

text \<open>
  A tool of an agent: its name and what \<open>tool.invoke(args)\<close> does: it returns a text or
  raises, and may change the outside.
\<close>

record 'w tool =
  name :: string
  invoke :: "(string \<times> string) list \<Rightarrow> 'w \<Rightarrow> (exn + string) \<times> 'w"

text \<open>
  The fields of \<open>GmailAgent\<close> and of \<open>CalendarAgent\<close> (the two classes have the same ones).
  \<open>chat_model\<close> is the chat model client: what it answers once a tool list is bound to it;
  \<open>agent_model\<close> is \<open>self.model\<close>, the client with the current binding.
\<close>

record 'w tool_agent =
  system_prompt :: string
  chat_model :: "'w tool list \<Rightarrow> 'w llm"
  agent_model :: "'w llm"
  tools :: "'w tool list"

definition add_tool :: "'w tool_agent \<Rightarrow> 'w tool \<Rightarrow> 'w tool_agent" where
  "add_tool self t =
     (let self = self\<lparr>tools := tools self @ [t]\<rparr>
      in self\<lparr>agent_model := chat_model self (tools self)\<rparr>)"

text \<open>
  The local state of \<open>process_request\<close>: the history \<open>messages\<close>, the counter \<open>iteration\<close>
  and the outside. \<open>events\<close> is a record of the calls made, in order: each model
  invocation with the history it was given, each tool invocation with the tool's name
  and the id of the tool call.
\<close>

datatype event = ModelInvoked "message list" | ToolInvoked string string

record 'w loop_state =
  loop_messages :: "message list"
  iteration :: nat
  world :: 'w
  events :: "event list"

text \<open>The body of \<open>for tool_call in response.tool_calls\<close>, for one tool call.\<close>

definition execute_tool_call :: "'w tool list \<Rightarrow> tool_call \<Rightarrow> 'w loop_state \<Rightarrow> 'w loop_state" where
  "execute_tool_call ts tc st =
     (case find (\<lambda>t. name t = tc_name tc) ts of
        None \<Rightarrow> st
      | Some t \<Rightarrow>
          (case invoke t (tc_args tc) (world st) of
             (Inr tool_output, w') \<Rightarrow>
               st\<lparr>loop_messages := loop_messages st @ [ToolMessage tool_output (tc_id tc)],
                  world := w',
                  events := events st @ [ToolInvoked (name t) (tc_id tc)]\<rparr>
           | (Inl e, w') \<Rightarrow>
               st\<lparr>loop_messages :=
                    loop_messages st @
                    [ToolMessage (''Tool execution error: '' @ str_exn e) (tc_id tc)],
                  world := w',
                  events := events st @ [ToolInvoked (name t) (tc_id tc)]\<rparr>))"

fun run_tool_calls :: "'w tool list \<Rightarrow> tool_call list \<Rightarrow> 'w loop_state \<Rightarrow> 'w loop_state" where
  "run_tool_calls ts [] st = st"
| "run_tool_calls ts (tc # tcs) st = run_tool_calls ts tcs (execute_tool_call ts tc st)"

text \<open>
  One model invocation: \<open>iteration += 1\<close>, the model is invoked with the history, and its
  response is appended.
\<close>

definition invoke_model ::
  "'w llm \<Rightarrow> 'w loop_state \<Rightarrow> (exn + ai_response) \<times> 'w loop_state" where
  "invoke_model llm st =
     (let st = st\<lparr>iteration := iteration st + 1,
                  events := events st @ [ModelInvoked (loop_messages st)]\<rparr>
      in case llm (loop_messages st) (world st) of
           (Inl e, w') \<Rightarrow> (Inl e, st\<lparr>world := w'\<rparr>)
         | (Inr response, w') \<Rightarrow>
             (Inr response,
              st\<lparr>loop_messages :=
                   loop_messages st @ [AIMessage (content response) (tool_calls response)],
                 world := w'\<rparr>))"

text \<open>
  \<open>while True\<close>: the loop has no bound, so it is a partial function: \<open>None\<close> is a run that
  never returns. A run that returns gives the exception the model call raised, or the
  final text, with the final local state.
\<close>

partial_function (option) agent_loop ::
  "'w llm \<Rightarrow> 'w tool list \<Rightarrow> 'w loop_state \<Rightarrow> ((exn + string) \<times> 'w loop_state) option" where
  "agent_loop llm ts st =
     (case invoke_model llm st of
        (Inl e, st1) \<Rightarrow> Some (Inl e, st1)
      | (Inr response, st1) \<Rightarrow>
          if tool_calls response \<noteq> [] then
            agent_loop llm ts (run_tool_calls ts (tool_calls response) st1)
          else Some (Inr (content response), st1))"

subsection \<open>GmailAgent\<close>

definition gmail_get_system_prompt :: string where
  \<open>gmail_get_system_prompt =
     ''You are a helpful Gmail assistant specialized in email management and organization.\<newline>'' @
     ''\<newline>'' @
     ''\<newline>'' @
     ''    When asked to draft emails, follow this workflow:\<newline>'' @
     ''    1. Analyze the user's request to determine the email recipient, content and subject\<newline>'' @
     ''    2. Use 'draft_email' to create a draft email\<newline>'' @
     ''\<newline>'' @
     ''    When asked to search and label emails, follow this workflow:\<newline>'' @
     ''    1. Use 'search_emails' to find relevant emails (returns email IDs)\<newline>'' @
     ''    2. Use 'get_email_content' to retrieve the content of each email using the IDs\<newline>'' @
     ''    3. Analyze the email content to determine appropriate categorization\<newline>'' @
     ''    4. Use 'apply_email_label' to apply the appropriate label to each email\<newline>'' @
     ''\<newline>'' @
     ''    Available predefined labels: "Spam", "News", "University", "Financial", "Personal", "Work", "Promotions", "Meeting", "Other"\<newline>'' @
     ''\<newline>'' @
     ''    When asked to search for specific email content, follow this workflow:\<newline>'' @
     ''    1. Use 'search_emails' to find relevant emails (returns email IDs)\<newline>'' @
     ''    2. Use 'get_email_content' to retrieve the content of each email using the IDs\<newline>'' @
     ''    3. Analyze the email content to determine if it matches the user's request\<newline>'' @
     ''\<newline>'' @
     ''    Important guidelines:\<newline>'' @
     ''    - Always examine email content before applying labels to ensure accurate categorization\<newline>'' @
     ''    - When search returns multiple emails, process each one individually\<newline>'' @
     ''    - Parse email IDs carefully from search results (e.g., "Found 3 emails with IDs: abc123, def456" '' @ [CHR 0xE2, CHR 0x86, CHR 0x92] @ '' use "abc123", "def456")\<newline>'' @
     ''    - Be specific about what actions were taken on each email\<newline>'' @
     ''    - If an email doesn't clearly fit a category, explain why and suggest the best match\<newline>'' @
     ''\<newline>'' @
     ''    Always be thorough and accurate''\<close>

definition GmailAgent_init :: "('w tool list \<Rightarrow> 'w llm) \<Rightarrow> 'w tool_agent" where
  "GmailAgent_init client =
     \<lparr>system_prompt = gmail_get_system_prompt, chat_model = client,
      agent_model = client [], tools = []\<rparr>"

definition GmailAgent_process_request ::
  "'w tool_agent \<Rightarrow> string \<Rightarrow> 'w \<Rightarrow> ((exn + string) \<times> 'w loop_state) option" where
  "GmailAgent_process_request self request w =
     agent_loop (agent_model self) (tools self)
       \<lparr>loop_messages = [SystemMessage (system_prompt self), HumanMessage request],
        iteration = 0, world = w, events = []\<rparr>"

subsection \<open>CalendarAgent\<close>

text \<open>
  \<open>_get_system_prompt\<close> of the calendar agent reads the clock: \<open>current_datetime\<close> is
  \<open>datetime.now()\<close> at the moment of the call, as \<open>strftime\<close> formats it.
\<close>

definition calendar_get_system_prompt :: "string \<Rightarrow> string" where
  \<open>calendar_get_system_prompt current_datetime =
     ''You are a helpful Google Calendar assistant specialized in managing calendar events.\<newline>'' @
     ''\<newline>'' @
     ''Current date and time: '' @ current_datetime @ ''\<newline>'' @
     ''\<newline>'' @
     ''When asked to create events, follow this workflow:\<newline>'' @
     ''1. Parse the user's request to extract event details (title, date/time, location, description)\<newline>'' @
     ''2. Use 'create_calendar_event' to create the event\<newline>'' @
     ''3. Confirm creation with the event ID and link\<newline>'' @
     ''\<newline>'' @
     ''When asked to find/search events, follow this workflow:\<newline>'' @
     ''1. Use 'search_calendar_events' to find events based on text or time range\<newline>'' @
     ''2. If needed, use 'get_calendar_event' to get full details of specific events\<newline>'' @
     ''3. Present the results clearly to the user\<newline>'' @
     ''\<newline>'' @
     ''When asked to update events, follow this workflow:\<newline>'' @
     ''1. Use 'search_calendar_events' to find the event if ID not provided\<newline>'' @
     ''2. Use 'update_calendar_event' to modify the event details\<newline>'' @
     ''3. Confirm the changes made\<newline>'' @
     ''\<newline>'' @
     ''When asked to delete events, follow this workflow:\<newline>'' @
     ''1. Use 'search_calendar_events' to find the event if ID not provided\<newline>'' @
     ''2. Optionally use 'get_calendar_event' to confirm it's the right event\<newline>'' @
     ''3. Use 'delete_calendar_event' to remove the event\<newline>'' @
     ''4. Confirm deletion\<newline>'' @
     ''\<newline>'' @
     ''Important guidelines:\<newline>'' @
     ''- Be smart about parsing dates and times from natural language using the current date/time as reference\<newline>'' @
     ''- If time is not specified, ask if it should be an all-day event\<newline>'' @
     ''- Always confirm successful operations with relevant details\<newline>'' @
     ''- When multiple events match a search, help the user identify the correct one\<newline>'' @
     ''- Be clear about what actions were taken\<newline>'' @
     ''\<newline>'' @
     ''Be helpful, accurate, and efficient in managing calendar events.''\<close>

text \<open>\<open>__init__\<close> takes the clock reading at construction, \<open>process_request\<close> the one at the call.\<close>

definition CalendarAgent_init :: "('w tool list \<Rightarrow> 'w llm) \<Rightarrow> string \<Rightarrow> 'w tool_agent" where
  "CalendarAgent_init client now =
     \<lparr>system_prompt = calendar_get_system_prompt now, chat_model = client,
      agent_model = client [], tools = []\<rparr>"

definition CalendarAgent_process_request ::
  "'w tool_agent \<Rightarrow> string \<Rightarrow> string \<Rightarrow> 'w \<Rightarrow> ((exn + string) \<times> 'w loop_state) option" where
  "CalendarAgent_process_request self now request w =
     agent_loop (agent_model self) (tools self)
       \<lparr>loop_messages = [SystemMessage (calendar_get_system_prompt now), HumanMessage request],
        iteration = 0, world = w, events = []\<rparr>"

text \<open>
  An agent as the orchestrator sees it: only the text or the exception of
  \<open>process_request\<close> and the outside are left. The task of a delegation node is the text of
  the user's message; a task \<open>None\<close> is refused when the human message is built from it.
\<close>

definition as_sub_agent ::
  "(string \<Rightarrow> 'w \<Rightarrow> ((exn + string) \<times> 'w loop_state) option) \<Rightarrow>
   string option \<Rightarrow> 'w \<Rightarrow> ((raised + string) \<times> 'w) option" where
  "as_sub_agent process_request task w =
     (case task of
        None \<Rightarrow>
          Some (Inl (Exception (PyError ''ValidationError''
                                  ''content: Input should be a valid string'')), w)
      | Some request \<Rightarrow>
          (case process_request request w of
             None \<Rightarrow> None
           | Some (Inl e, st) \<Rightarrow> Some (Inl (Exception e), world st)
           | Some (Inr answer, st) \<Rightarrow> Some (Inr answer, world st)))"

section \<open>The Gmail tools (gmail\_tools.py)\<close>

definition DEFAULT_LABELS :: "string list" where
  "DEFAULT_LABELS =
     [''Spam'', ''News'', ''University'', ''Financial'', ''Personal'',
      ''Work'', ''Promotions'', ''Meeting'', ''Other'']"

text \<open>
  The remote Gmail service. A message of the API, as far as the tools read it: its id, the
  headers of its payload (name and value), and the payload's parts or single body, each
  with its data already decoded to text. The service's three requests that the two tools
  below send return a result or raise and may change the remote state \<open>'r\<close>; every
  request sent is written to \<open>api_log\<close>.
\<close>

record payload_part =
  mimeType :: string
  part_text :: string

record gmail_message =
  msg_id :: string
  msg_headers :: "(string \<times> string) list"
  msg_parts :: "payload_part list option"
  msg_body :: "string option"

datatype api_call = LabelsList | MessagesModify string "string list" | MessagesGet string

record 'r gmail_world =
  remote :: 'r
  api_log :: "api_call list"

record 'r gmail_service =
  labels_list_execute :: "'r \<Rightarrow> (exn + (string \<times> string) list) \<times> 'r"
  messages_modify_execute :: "string \<Rightarrow> string list \<Rightarrow> 'r \<Rightarrow> (exn + unit) \<times> 'r"
  messages_get_execute :: "string \<Rightarrow> 'r \<Rightarrow> (exn + gmail_message) \<times> 'r"

definition users_labels_list ::
  "'r gmail_service \<Rightarrow> 'r gmail_world \<Rightarrow> (exn + (string \<times> string) list) \<times> 'r gmail_world" where
  "users_labels_list service w =
     (case labels_list_execute service (remote w) of
        (result, r') \<Rightarrow> (result, \<lparr>remote = r', api_log = api_log w @ [LabelsList]\<rparr>))"

definition users_messages_modify ::
  "'r gmail_service \<Rightarrow> string \<Rightarrow> string list \<Rightarrow> 'r gmail_world \<Rightarrow> (exn + unit) \<times> 'r gmail_world" where
  "users_messages_modify service email_id addLabelIds w =
     (case messages_modify_execute service email_id addLabelIds (remote w) of
        (result, r') \<Rightarrow>
          (result, \<lparr>remote = r', api_log = api_log w @ [MessagesModify email_id addLabelIds]\<rparr>))"

definition users_messages_get ::
  "'r gmail_service \<Rightarrow> string \<Rightarrow> 'r gmail_world \<Rightarrow> (exn + gmail_message) \<times> 'r gmail_world" where
  "users_messages_get service email_id w =
     (case messages_get_execute service email_id (remote w) of
        (result, r') \<Rightarrow> (result, \<lparr>remote = r', api_log = api_log w @ [MessagesGet email_id]\<rparr>))"

text \<open>\<open>GmailBaseTool._handle_error\<close>.\<close>

fun handle_error :: "exn \<Rightarrow> string \<Rightarrow> string" where
  "handle_error (HttpError status text) context =
     (if status = Some 404 then ''Error: Resource not found in '' @ context
      else if status = Some 403 then ''Error: Permission denied for '' @ context
      else ''API Error in '' @ context @ '': '' @ text)"
| "handle_error (PyError cls text) context = ''Error in '' @ context @ '': '' @ text"

text \<open>\<open>GmailToolkit.get_label_id\<close>: any exception gives \<open>None\<close> (the message it prints is left out).\<close>

definition get_label_id ::
  "'r gmail_service \<Rightarrow> string \<Rightarrow> 'r gmail_world \<Rightarrow> string option \<times> 'r gmail_world" where
  "get_label_id service label_name w =
     (case users_labels_list service w of
        (Inl e, w') \<Rightarrow> (None, w')
      | (Inr labels, w') \<Rightarrow>
          (case find (\<lambda>label. lower (fst label) = lower label_name) labels of
             Some label \<Rightarrow> (Some (snd label), w')
           | None \<Rightarrow> (None, w')))"

text \<open>
  \<open>GmailApplyLabelTool._run\<close>. \<open>if not label_id\<close> is Python truth: \<open>None\<close> or the empty string.
  Label names are compared through \<open>lower\<close>, the case mapping on ASCII text.
\<close>

definition GmailApplyLabelTool_run ::
  "'r gmail_service \<Rightarrow> string list \<Rightarrow> string \<Rightarrow> string \<Rightarrow> 'r gmail_world \<Rightarrow>
   string \<times> 'r gmail_world" where
  "GmailApplyLabelTool_run service allowed_labels email_id label w =
     (if lower label \<notin> set (map lower allowed_labels) then
        (''Error: '' @ apostrophe @ label @ apostrophe @
         '' is not an allowed label. Allowed labels are: '' @ join '', '' allowed_labels, w)
      else
        case get_label_id service label w of
          (None, w1) \<Rightarrow>
            (''Error: Label '' @ apostrophe @ label @ apostrophe @
             '' not found in Gmail. Please ensure it exists in your Gmail account.'', w1)
        | (Some label_id, w1) \<Rightarrow>
            if label_id = [] then
              (''Error: Label '' @ apostrophe @ label @ apostrophe @
               '' not found in Gmail. Please ensure it exists in your Gmail account.'', w1)
            else
              (case users_messages_modify service email_id [label_id] w1 of
                 (Inl e, w2) \<Rightarrow> (handle_error e (''applying label to email '' @ email_id), w2)
               | (Inr result, w2) \<Rightarrow>
                   (''Successfully applied label '' @ apostrophe @ label @ apostrophe @
                    '' to email '' @ email_id, w2)))"

subsection \<open>GmailGetEmailTool\<close>

text \<open>\<open>str.strip\<close> removes the white space at both ends (here: the ASCII white space).\<close>

definition whitespace :: string where
  "whitespace = [CHR 0x09, CHR 0x0A, CHR 0x0B, CHR 0x0C, CHR 0x0D,
                 CHR 0x1C, CHR 0x1D, CHR 0x1E, CHR 0x1F, CHR 0x20]"

definition strip :: "string \<Rightarrow> string" where
  "strip s = rev (dropWhile (\<lambda>c. c \<in> set whitespace) (rev (dropWhile (\<lambda>c. c \<in> set whitespace) s)))"

text \<open>
  \<open>EmailHelper.parse_email_body\<close>, for a payload whose \<open>text/plain\<close> parts carry their data
  (on a part without data the source raises \<open>KeyError\<close>).
\<close>

definition parse_email_body :: "gmail_message \<Rightarrow> string" where
  "parse_email_body message =
     strip (case msg_parts message of
              Some ps \<Rightarrow> concat (map part_text (filter (\<lambda>part. mimeType part = ''text/plain'') ps))
            | None \<Rightarrow> (case msg_body message of Some text \<Rightarrow> text | None \<Rightarrow> []))"

record email_data =
  ed_id :: string
  ed_subject :: string
  ed_from :: string
  ed_to :: string
  ed_date :: string
  ed_body :: string

definition header_value :: "(string \<times> string) list \<Rightarrow> string \<Rightarrow> string \<Rightarrow> string" where
  "header_value hs header_name fallback =
     (case find (\<lambda>h. fst h = header_name) hs of Some h \<Rightarrow> snd h | None \<Rightarrow> fallback)"

text \<open>
  The values \<open>_run\<close> passes around: an API message or a boolean. \<open>_parse_email\<close> subscripts
  its argument, which a boolean does not allow.
\<close>

datatype py_value = PyMessage gmail_message | PyBool bool

fun parse_email :: "py_value \<Rightarrow> exn + email_data" where
  "parse_email (PyMessage message) =
     Inr \<lparr>ed_id = msg_id message,
          ed_subject = header_value (msg_headers message) ''Subject'' ''No Subject'',
          ed_from = header_value (msg_headers message) ''From'' ''Unknown'',
          ed_to = header_value (msg_headers message) ''To'' ''Unknown'',
          ed_date = header_value (msg_headers message) ''Date'' ''Unknown'',
          ed_body = parse_email_body message\<rparr>"
| "parse_email (PyBool b) =
     Inl (PyError ''TypeError'' (apostrophe @ ''bool'' @ apostrophe @ '' object is not subscriptable''))"

definition digits :: string where
  "digits = ''0123456789''"

function show_nat :: "nat \<Rightarrow> string" where
  "show_nat n = (if n < 10 then [digits ! n] else show_nat (n div 10) @ [digits ! (n mod 10)])"
  by pat_completeness auto
termination
  by (relation "measure (\<lambda>n. n)") auto

text \<open>
  A call \<open>self._parse_email(...)\<close> with the positional arguments \<open>args\<close>. The method is declared
  \<open>_parse_email(self, message)\<close>: Python binds the arguments before the body runs and raises
  \<open>TypeError\<close> when their number is not one.
\<close>

definition call_parse_email :: "py_value list \<Rightarrow> exn + email_data" where
  "call_parse_email args =
     (case args of
        [message] \<Rightarrow> parse_email message
      | [] \<Rightarrow>
          Inl (PyError ''TypeError''
                (''GmailGetEmailTool._parse_email() missing 1 required positional argument: '' @
                 apostrophe @ ''message'' @ apostrophe))
      | _ \<Rightarrow>
          Inl (PyError ''TypeError''
                (''GmailGetEmailTool._parse_email() takes 2 positional arguments but '' @
                 show_nat (length args + 1) @ '' were given'')))"

definition format_email :: "email_data \<Rightarrow> bool \<Rightarrow> string" where
  \<open>format_email data include_body =
     ''Email ID: '' @ ed_id data @ ''\<newline>'' @
     ''From: '' @ ed_from data @ ''\<newline>'' @
     ''To: '' @ ed_to data @ ''\<newline>'' @
     ''Subject: '' @ ed_subject data @ ''\<newline>'' @
     ''Date: '' @ ed_date data @ ''\<newline>'' @
     (if include_body then ''\<newline>Body:\<newline>'' @ take 500 (ed_body data) @ ''...'' else [])\<close>

text \<open>\<open>GmailGetEmailTool._run\<close>.\<close>

definition GmailGetEmailTool_run ::
  "'r gmail_service \<Rightarrow> string \<Rightarrow> bool \<Rightarrow> 'r gmail_world \<Rightarrow> string \<times> 'r gmail_world" where
  "GmailGetEmailTool_run service email_id include_body w =
     (case users_messages_get service email_id w of
        (Inl e, w1) \<Rightarrow> (handle_error e (''retrieving email '' @ email_id), w1)
      | (Inr message, w1) \<Rightarrow>
          (case call_parse_email [PyMessage message, PyBool include_body] of
             Inl e \<Rightarrow> (handle_error e (''retrieving email '' @ email_id), w1)
           | Inr data \<Rightarrow> (format_email data include_body, w1)))"

section \<open>Notions of the specification\<close>

text \<open>
  The tool calls of a response that name a tool of the agent's tool list, and the
  back-reference of a message (the id of the tool call a Tool message answers).
\<close>

definition resolved_calls :: "'w tool list \<Rightarrow> tool_call list \<Rightarrow> tool_call list" where
  "resolved_calls ts calls = filter (\<lambda>tc. tc_name tc \<in> set (map name ts)) calls"

fun tool_call_id :: "message \<Rightarrow> string option" where
  "tool_call_id (ToolMessage c i) = Some i"
| "tool_call_id m = None"

text \<open>
  The delegation router as the specification words it: a trigger phrase matches a message
  when, both in lower case, it is a substring of the message; the router gives the first
  sub-agent in registration order with a matching trigger, and none when there is none.
  \<open>trigger_table\<close> is what the router may depend on: the names and their triggers, in
  order; \<open>lowered_table\<close> is that table with the triggers in lower case; \<open>ascii_triggers\<close>
  says that every trigger of the table is ASCII text.
\<close>

definition matches_spec :: "(string \<Rightarrow> string) \<Rightarrow> string \<Rightarrow> 'w sub_agent_config \<Rightarrow> bool" where
  "matches_spec lower_case m config =
     (\<exists>t \<in> set (triggers config). sublist (lower_case t) (lower_case m))"

definition route_spec ::
  "(string \<Rightarrow> string) \<Rightarrow> (string \<times> 'w sub_agent_config) list \<Rightarrow> string \<Rightarrow> string option" where
  "route_spec lower_case table m =
     map_option fst (find (\<lambda>entry. matches_spec lower_case m (snd entry)) table)"

definition lowered_table ::
  "(string \<Rightarrow> string) \<Rightarrow> 'w ConversationalOrchestrator \<Rightarrow> (string \<times> string list) list" where
  "lowered_table lower_case self =
     map (\<lambda>entry. (fst entry, map lower_case (triggers (snd entry)))) (sub_agents self)"

definition ascii_triggers :: "'w ConversationalOrchestrator \<Rightarrow> bool" where
  "ascii_triggers self = list_all (\<lambda>entry. list_all ascii (triggers (snd entry))) (sub_agents self)"

definition trigger_table :: "'w ConversationalOrchestrator \<Rightarrow> (string \<times> string list) list" where
  "trigger_table self = map (\<lambda>entry. (fst entry, triggers (snd entry))) (sub_agents self)"

section \<open>Concrete inputs\<close>

text \<open>
  Small concrete agents, tools and models, on which the theorems below are instantiated.
  The outside is trivial here (\<open>unit\<close>).
\<close>

definition example_state :: "unit loop_state" where
  "example_state =
     \<lparr>loop_messages = [HumanMessage ''Draft an email to Bob''], iteration = 0, world = (),
      events = []\<rparr>"

definition search_tool :: "unit tool" where
  "search_tool =
     \<lparr>name = ''search_emails'',
      invoke = (\<lambda>args w. (Inr ''No emails found matching the search criteria.'', w))\<rparr>"

definition failing_tool :: "unit tool" where
  "failing_tool =
     \<lparr>name = ''get_email_content'',
      invoke = (\<lambda>args w. (Inl (PyError ''ConnectionError'' ''connection reset''), w))\<rparr>"

definition draft_call :: tool_call where
  "draft_call =
     \<lparr>tc_name = ''draft_email'', tc_args = [(''to'', ''bob@example.com'')], tc_id = ''call_1''\<rparr>"

definition search_call :: tool_call where
  "search_call =
     \<lparr>tc_name = ''search_emails'', tc_args = [(''query'', ''is:unread'')], tc_id = ''call_2''\<rparr>"

definition get_call :: tool_call where
  "get_call =
     \<lparr>tc_name = ''get_email_content'', tc_args = [(''email_id'', ''18c7'')], tc_id = ''call_3''\<rparr>"

text \<open>
  Three scripted models: one asks for the tool \<open>draft_email\<close> (the name the Gmail system
  prompt uses; the tool list has no tool of that name) and answers once the history holds
  its request, one does the same with two tools of the tool list, one answers at once.
  \<open>drafting_agent\<close> is a Gmail agent with the first model and two tools.
\<close>

definition drafting_llm :: "unit llm" where
  "drafting_llm history w =
     (if filter is_AIMessage history = [] then
        (Inr \<lparr>content = [], tool_calls = [draft_call]\<rparr>, w)
      else (Inr \<lparr>content = ''Done'', tool_calls = []\<rparr>, w))"

definition searching_llm :: "unit llm" where
  "searching_llm history w =
     (if filter is_AIMessage history = [] then
        (Inr \<lparr>content = [], tool_calls = [search_call, get_call]\<rparr>, w)
      else (Inr \<lparr>content = ''Done'', tool_calls = []\<rparr>, w))"

definition plain_llm :: "unit llm" where
  "plain_llm history w = (Inr \<lparr>content = ''Paris'', tool_calls = []\<rparr>, w)"

definition drafting_agent :: "unit tool_agent" where
  "drafting_agent = add_tool (add_tool (GmailAgent_init (\<lambda>ts. drafting_llm)) search_tool) failing_tool"

text \<open>
  Three sub-agents as the orchestrator sees them (one answers, one raises a
  \<open>ConnectionError\<close>, one is interrupted from the keyboard while it runs), two user
  messages, and three orchestrators built by the factory with the same trigger lists and
  different agents and models.
\<close>

definition answering_agent :: "string option \<Rightarrow> unit \<Rightarrow> ((raised + string) \<times> unit) option" where
  "answering_agent task w = Some (Inr ''Created event Team Standup'', w)"

definition raising_agent :: "string option \<Rightarrow> unit \<Rightarrow> ((raised + string) \<times> unit) option" where
  "raising_agent task w =
     Some (Inl (Exception (PyError ''ConnectionError'' ''connection refused'')), w)"

definition interrupted_agent :: "string option \<Rightarrow> unit \<Rightarrow> ((raised + string) \<times> unit) option" where
  "interrupted_agent task w = Some (Inl (BaseException ''KeyboardInterrupt'' []), w)"

definition scenario_A_message :: string where
  "scenario_A_message = ''Create a meeting called Team Standup tomorrow at 10am for 30 minutes''"

definition overlap_message :: string where
  "overlap_message = ''Schedule an email to the team''"

definition example_orchestrator :: "unit ConversationalOrchestrator" where
  "example_orchestrator = create_orchestrator_with_agents raising_agent answering_agent plain_llm"

definition other_orchestrator :: "unit ConversationalOrchestrator" where
  "other_orchestrator = create_orchestrator_with_agents answering_agent raising_agent drafting_llm"

definition interrupted_orchestrator :: "unit ConversationalOrchestrator" where
  "interrupted_orchestrator =
     create_orchestrator_with_agents interrupted_agent answering_agent plain_llm"

text \<open>
  The inputs of two turns (Scenario A of the specification, and a request for the Gmail
  agent), and the delegation nodes of the graph built for the factory's two sub-agents.
\<close>

definition scenario_A_input :: OrchestrationState where
  "scenario_A_input =
     \<lparr>messages = [HumanMessage scenario_A_message], current_task = None,
      delegated_to = None, task_complete = False\<rparr>"

definition draft_input :: OrchestrationState where
  "draft_input =
     \<lparr>messages = [HumanMessage ''Draft a note to Bob''], current_task = None,
      delegated_to = None, task_complete = False\<rparr>"

definition factory_nodes :: "(string \<times> string) list" where
  "factory_nodes = [(''delegate_gmail'', ''gmail''), (''delegate_calendar'', ''calendar'')]"


text \<open>The transient fields of the orchestration state, as a turn that has completed leaves them.\<close>

definition cleared :: "OrchestrationState \<Rightarrow> bool" where
  "cleared state = (current_task state = None \<and> delegated_to state = None \<and> task_complete state)"

text \<open>
  A Gmail service that holds one message and two labels, one that answers every request
  for a message with HTTP 404, and the email data the message parses to.
\<close>

definition example_message :: gmail_message where
  "example_message =
     \<lparr>msg_id = ''18c7'',
      msg_headers = [(''From'', ''alice@example.com''), (''Subject'', ''Invoice'')],
      msg_parts = None, msg_body = Some ''Please find the invoice attached.''\<rparr>"

definition example_service :: "unit gmail_service" where
  "example_service =
     \<lparr>labels_list_execute = (\<lambda>r. (Inr [(''Work'', ''Label_1''), (''Personal'', ''Label_2'')], r)),
      messages_modify_execute = (\<lambda>email_id addLabelIds r. (Inr (), r)),
      messages_get_execute = (\<lambda>email_id r. (Inr example_message, r))\<rparr>"

definition missing_service :: "unit gmail_service" where
  "missing_service =
     \<lparr>labels_list_execute = (\<lambda>r. (Inr [], r)),
      messages_modify_execute = (\<lambda>email_id addLabelIds r. (Inl (HttpError (Some 404) ''Not Found''), r)),
      messages_get_execute = (\<lambda>email_id r. (Inl (HttpError (Some 404) ''Not Found''), r))\<rparr>"

definition example_world :: "unit gmail_world" where
  "example_world = \<lparr>remote = (), api_log = []\<rparr>"

definition example_data :: email_data where
  "example_data =
     \<lparr>ed_id = ''18c7'', ed_subject = ''Invoice'', ed_from = ''alice@example.com'',
      ed_to = ''Unknown'', ed_date = ''Unknown'', ed_body = ''Please find the invoice attached.''\<rparr>"


text \<open>
  A calendar agent and a Gmail agent built by their constructors, two readings of the
  clock, the local state in which a call of each agent returns when the model answers at
  once, and the Gmail agent after its attribute \<open>system_prompt\<close> was assigned another text.
\<close>

definition construction_time :: string where
  "construction_time = ''Monday, November 02, 2026 at 09:00 AM''"

definition call_time :: string where
  "call_time = ''Wednesday, November 04, 2026 at 10:30 AM''"

definition example_calendar_agent :: "unit tool_agent" where
  "example_calendar_agent = CalendarAgent_init (\<lambda>ts. plain_llm) construction_time"

definition example_gmail_agent :: "unit tool_agent" where
  "example_gmail_agent = GmailAgent_init (\<lambda>ts. plain_llm)"

definition calendar_final_state :: "unit loop_state" where
  "calendar_final_state =
     \<lparr>loop_messages =
        [SystemMessage (calendar_get_system_prompt call_time),
         HumanMessage ''Am I free tomorrow?'', AIMessage ''Paris'' []],
      iteration = 1, world = (),
      events = [ModelInvoked [SystemMessage (calendar_get_system_prompt call_time),
                              HumanMessage ''Am I free tomorrow?'']]\<rparr>"

definition gmail_final_state :: "unit loop_state" where
  "gmail_final_state =
     \<lparr>loop_messages =
        [SystemMessage gmail_get_system_prompt,
         HumanMessage ''Find my invoices'', AIMessage ''Paris'' []],
      iteration = 1, world = (),
      events = [ModelInvoked [SystemMessage gmail_get_system_prompt,
                              HumanMessage ''Find my invoices'']]\<rparr>"

definition edited_gmail_agent :: "unit tool_agent" where
  "edited_gmail_agent = example_gmail_agent\<lparr>system_prompt := ''You only draft emails.''\<rparr>"

section \<open>Lemmas\<close>


lemma ascii_str_fields: "str_lower ascii_str = lower" "str_title ascii_str = title"
  by (simp_all add: ascii_str_def)

lemma trigger_in_message_simps [simp]:
  "trigger_in_message [] message_lower = False"
  "trigger_in_message (trigger # rest) message_lower =
     (if str_contains message_lower (lower trigger) then True
      else trigger_in_message rest message_lower)"
  by (simp_all add: trigger_in_message_def)

lemma first_matching_agent_simps [simp]:
  "first_matching_agent [] message_lower = None"
  "first_matching_agent ((agent_name, config) # rest) message_lower =
     (if trigger_in_message (triggers config) message_lower then Some agent_name
      else first_matching_agent rest message_lower)"
  by (simp_all add: first_matching_agent_def trigger_in_message_def)

lemma should_delegate_eq:
  "should_delegate self user_message =
     (let message_lower = lower user_message
      in first_matching_agent (sub_agents self) message_lower)"
  by (simp add: should_delegate_def should_delegate_with_def first_matching_agent_def ascii_str_def)

lemma delegation_update_eq:
  \<open>delegation_update delegate_to task =
     (let agent_name = title delegate_to;
          response_content =
            ''I'll help you with that '' @ agent_name @
            '' task. Let me process your request...\<newline>\<newline>Delegating to '' @ agent_name @
            '' agent...''
      in \<lparr>messages = [AIMessage response_content []],
          current_task = Some task, delegated_to = Some delegate_to, task_complete = False\<rparr>)\<close>
  by (simp add: delegation_update_def delegation_update_with_def ascii_str_def)

lemma orchestrator_node_eq:
  "orchestrator_node self state w =
     (if messages state = [] then (Inl (PyError ''IndexError'' ''list index out of range''), w)
      else
        let last_message = last (messages state);
            system_message = filter is_SystemMessage (messages state);
            msgs = (if system_message = [] then SystemMessage (get_system_prompt self) # messages state
                    else messages state)
        in case last_message of
             HumanMessage text \<Rightarrow>
               (case should_delegate self text of
                  Some delegate_to \<Rightarrow>
                    if delegate_to \<noteq> [] then (Inr (delegation_update delegate_to text), w)
                    else respond_conversationally self msgs w
                | None \<Rightarrow> respond_conversationally self msgs w)
           | _ \<Rightarrow> respond_conversationally self msgs w)"
  unfolding orchestrator_node_def should_delegate_def delegation_update_def
    orchestrator_node_with_def
  by (rule refl)

lemma delegation_node_eq:
  \<open>delegation_node self agent_name state w =
     (case map_of (sub_agents self) agent_name of
        None \<Rightarrow>
          Some (Inl (Exception (PyError ''KeyError'' (apostrophe @ agent_name @ apostrophe))), w)
      | Some config \<Rightarrow>
          (case agent config (current_task state) w of
             None \<Rightarrow> None
           | Some (Inr result, w') \<Rightarrow>
               Some (Inr \<lparr>messages =
                            [AIMessage (title agent_name @ '' task completed:\<newline>\<newline>'' @ result) []],
                          current_task = None, delegated_to = None, task_complete = True\<rparr>, w')
           | Some (Inl (Exception e), w') \<Rightarrow>
               Some (Inr \<lparr>messages =
                            [AIMessage (''Error processing '' @ title agent_name @ '' task: '' @
                                        str_exn e) []],
                          current_task = None, delegated_to = None, task_complete = True\<rparr>, w')
           | Some (Inl (BaseException cls text), w') \<Rightarrow>
               Some (Inl (BaseException cls text), w')))\<close>
  unfolding delegation_node_def delegation_node_with_def ascii_str_fields
  by (rule refl)

lemma graph_invoke_eq:
  "graph_invoke self nodes state0 w =
     (case orchestrator_node self state0 w of
        (Inl e, w1) \<Rightarrow> Some (Inl (Exception e), w1)
      | (Inr update1, w1) \<Rightarrow>
          (let state1 = apply_update state0 update1;
               next_node = should_continue state1
           in if next_node = END then Some (Inr state1, w1)
              else case map_of nodes next_node of
                     None \<Rightarrow> Some (Inl (Exception (PyError ''KeyError'' next_node)), w1)
                   | Some agent_name \<Rightarrow>
                       (case delegation_node self agent_name state1 w1 of
                          None \<Rightarrow> None
                        | Some (Inl e, w2) \<Rightarrow> Some (Inl e, w2)
                        | Some (Inr update2, w2) \<Rightarrow> Some (Inr (apply_update state1 update2), w2))))"
  unfolding graph_invoke_def orchestrator_node_def delegation_node_def graph_invoke_with_def
  by (rule refl)

lemma chat_eq:
  "chat self0 message thread_id w =
     (let self = (case graph self0 of None \<Rightarrow> build_graph self0 | Some nodes \<Rightarrow> self0);
          nodes = (case graph self0 of None \<Rightarrow> delegation_nodes self0 | Some nodes \<Rightarrow> nodes);
          initial_state = \<lparr>messages = [HumanMessage message], current_task = None,
                           delegated_to = None, task_complete = False\<rparr>
      in case graph_invoke self nodes
                (checkpoint_merge (memory self thread_id) initial_state) w of
           None \<Rightarrow> None
         | Some (Inl e, w') \<Rightarrow> Some (Inl e, w')
         | Some (Inr result, w') \<Rightarrow>
             (let ai_messages = filter is_AIMessage (messages result)
              in Some (Inr (if ai_messages \<noteq> [] then message_content (last ai_messages)
                            else ''No response generated'',
                            self\<lparr>memory := (memory self)(thread_id \<mapsto> result)\<rparr>), w')))"
  unfolding chat_def graph_invoke_def chat_with_def
  by (rule refl)

lemma str_contains_sublist: "str_contains s t = sublist t s"
  by (induction s) (auto simp: sublist_Cons_right)

lemma trigger_in_message_with_iff:
  "trigger_in_message_with lc ts (lc m) = (\<exists>t \<in> set ts. sublist (lc t) (lc m))"
  by (induction ts) (auto simp: str_contains_sublist)

lemma first_matching_agent_with_find:
  "first_matching_agent_with lc table (lc m) =
     map_option fst (find (\<lambda>entry. matches_spec lc m (snd entry)) table)"
  by (induction table) (auto simp: matches_spec_def trigger_in_message_with_iff)

lemma should_delegate_with_route:
  "should_delegate_with py self m = route_spec (str_lower py) (sub_agents self) m"
  by (simp add: should_delegate_with_def route_spec_def first_matching_agent_with_find)

lemma should_delegate_route: "should_delegate self m = route_spec lower (sub_agents self) m"
  by (simp add: should_delegate_def should_delegate_with_route ascii_str_def)

lemma route_spec_Some:
  "route_spec lc table m = Some a \<longleftrightarrow>
     (\<exists>i < length table. fst (table ! i) = a \<and> matches_spec lc m (snd (table ! i)) \<and>
        (\<forall>j < i. \<not> matches_spec lc m (snd (table ! j))))"
proof
  assume "route_spec lc table m = Some a"
  then obtain entry where f: "find (\<lambda>entry. matches_spec lc m (snd entry)) table = Some entry"
    and a: "fst entry = a"
    by (auto simp: route_spec_def)
  from f obtain i where "i < length table" "matches_spec lc m (snd (table ! i))" "entry = table ! i"
    "\<forall>j < i. \<not> matches_spec lc m (snd (table ! j))"
    unfolding find_Some_iff by blast
  with a show "\<exists>i < length table. fst (table ! i) = a \<and> matches_spec lc m (snd (table ! i)) \<and>
        (\<forall>j < i. \<not> matches_spec lc m (snd (table ! j)))"
    by blast
next
  assume "\<exists>i < length table. fst (table ! i) = a \<and> matches_spec lc m (snd (table ! i)) \<and>
        (\<forall>j < i. \<not> matches_spec lc m (snd (table ! j)))"
  then obtain i where "i < length table" "fst (table ! i) = a" "matches_spec lc m (snd (table ! i))"
    "\<forall>j < i. \<not> matches_spec lc m (snd (table ! j))"
    by blast
  then have "find (\<lambda>entry. matches_spec lc m (snd entry)) table = Some (table ! i)"
    unfolding find_Some_iff by blast
  with \<open>fst (table ! i) = a\<close> show "route_spec lc table m = Some a"
    by (simp add: route_spec_def)
qed

lemma route_spec_None:
  "route_spec lc table m = None \<longleftrightarrow> (\<forall>entry \<in> set table. \<not> matches_spec lc m (snd entry))"
  unfolding route_spec_def
  by (auto simp: find_None_iff)

lemma route_spec_first:
  "\<forall>entry \<in> set before. \<not> matches_spec lc m (snd entry) \<Longrightarrow> matches_spec lc m config \<Longrightarrow>
   route_spec lc (before @ (a, config) # after) m = Some a"
  unfolding route_spec_def
  by (induction before) auto

lemma matches_spec_lowered:
  "matches_spec lc m config = (\<exists>t \<in> set (map lc (triggers config)). sublist t (lc m))"
  by (auto simp: matches_spec_def)

lemma route_spec_lowered:
  "map (\<lambda>entry. (fst entry, map lc (triggers (snd entry)))) t1 =
   map (\<lambda>entry. (fst entry, map lc (triggers (snd entry)))) t2 \<Longrightarrow>
   route_spec lc t1 m = route_spec lc t2 m"
proof (induction t1 arbitrary: t2)
  case Nil
  then show ?case by (simp add: route_spec_def)
next
  case (Cons e t1)
  then obtain e' t2' where t2: "t2 = e' # t2'" by (cases t2) auto
  with Cons.prems have n: "fst e = fst e'"
    and tr: "map lc (triggers (snd e)) = map lc (triggers (snd e'))"
    and rest: "map (\<lambda>entry. (fst entry, map lc (triggers (snd entry)))) t1 =
               map (\<lambda>entry. (fst entry, map lc (triggers (snd entry)))) t2'"
    by auto
  from tr have ms: "matches_spec lc m (snd e) = matches_spec lc m (snd e')"
    by (simp only: matches_spec_lowered)
  from Cons.IH[OF rest] have "route_spec lc t1 m = route_spec lc t2' m" .
  with n ms show ?case
    unfolding t2 by (auto simp: route_spec_def)
qed

lemma lowered_of_trigger_table:
  "map (\<lambda>entry. (fst entry, triggers (snd entry))) t1 =
   map (\<lambda>entry. (fst entry, triggers (snd entry))) t2 \<Longrightarrow>
   map (\<lambda>entry. (fst entry, map lc (triggers (snd entry)))) t1 =
   map (\<lambda>entry. (fst entry, map lc (triggers (snd entry)))) t2"
proof (induction t1 arbitrary: t2)
  case Nil
  then show ?case by simp
next
  case (Cons e t1)
  then obtain e' t2' where "t2 = e' # t2'" by (cases t2) auto
  with Cons show ?case by auto
qed

lemma route_spec_message: "lc m = lc m' \<Longrightarrow> route_spec lc table m = route_spec lc table m'"
  by (simp add: route_spec_def matches_spec_def)

lemma char_lower_upper: "char_lower (char_upper c) = char_lower c"
  by (simp add: char_lower_def char_upper_def upper_letters_def lower_letters_def)

lemma lower_upper: "lower (upper s) = lower s"
  by (simp add: lower_def upper_def char_lower_upper)

lemma ascii_char_upper: "\<not> digit7 c \<Longrightarrow> \<not> digit7 (char_upper c)"
  by (simp add: char_upper_def upper_letters_def lower_letters_def)

lemma ascii_upper: "ascii s \<Longrightarrow> ascii (upper s)"
  by (induction s) (simp_all add: ascii_def upper_def ascii_char_upper)

lemma route_spec_ascii:
  assumes lc: "\<And>s. ascii s \<Longrightarrow> lc s = lower s" and m: "ascii m"
    and ts: "list_all (\<lambda>entry. list_all ascii (triggers (snd entry))) table"
  shows "route_spec lc table m = route_spec lower table m"
proof -
  have "matches_spec lc m (snd entry) = matches_spec lower m (snd entry)"
    if "entry \<in> set table" for entry
  proof -
    from ts that have "\<forall>t \<in> set (triggers (snd entry)). ascii t"
      by (auto simp: list_all_iff)
    with lc m show ?thesis by (auto simp: matches_spec_def)
  qed
  then have "find (\<lambda>entry. matches_spec lc m (snd entry)) table =
             find (\<lambda>entry. matches_spec lower m (snd entry)) table"
    by (intro find_cong) auto
  then show ?thesis by (simp add: route_spec_def)
qed

lemma find_name_None: "find (\<lambda>t. name t = n) ts = None \<longleftrightarrow> n \<notin> set (map name ts)"
  by (auto simp: find_None_iff)

lemma execute_unknown:
  "tc_name tc \<notin> set (map name ts) \<Longrightarrow> execute_tool_call ts tc st = st"
  using find_name_None[of "tc_name tc" ts] by (simp add: execute_tool_call_def)

lemma execute_known:
  assumes "tc_name tc \<in> set (map name ts)"
  shows "\<exists>text w'. execute_tool_call ts tc st =
           st\<lparr>loop_messages := loop_messages st @ [ToolMessage text (tc_id tc)],
              world := w',
              events := events st @ [ToolInvoked (tc_name tc) (tc_id tc)]\<rparr>"
proof -
  from assms obtain t where f: "find (\<lambda>t. name t = tc_name tc) ts = Some t"
    using find_name_None[of "tc_name tc" ts] by (cases "find (\<lambda>t. name t = tc_name tc) ts") auto
  then have n: "name t = tc_name tc" by (auto simp: find_Some_iff)
  obtain r w' where i: "invoke t (tc_args tc) (world st) = (r, w')" by (cases "invoke t (tc_args tc) (world st)")
  show ?thesis
    using f n i by (cases r) (auto simp: execute_tool_call_def)
qed

lemma execute_iteration: "iteration (execute_tool_call ts tc st) = iteration st"
  by (auto simp: execute_tool_call_def split: option.splits prod.splits sum.splits)

lemma run_iteration: "iteration (run_tool_calls ts calls st) = iteration st"
  by (induction calls arbitrary: st) (auto simp: execute_iteration)

lemma execute_events:
  "events (execute_tool_call ts tc st) =
     events st @ map (\<lambda>tc. ToolInvoked (tc_name tc) (tc_id tc)) (resolved_calls ts [tc])"
proof (cases "tc_name tc \<in> set (map name ts)")
  case True
  from execute_known[OF True, of st] show ?thesis using True by (auto simp: resolved_calls_def)
next
  case False
  then show ?thesis by (simp add: execute_unknown resolved_calls_def)
qed

lemma execute_messages:
  "\<exists>new. loop_messages (execute_tool_call ts tc st) = loop_messages st @ new \<and>
         map tool_call_id new = map (\<lambda>tc. Some (tc_id tc)) (resolved_calls ts [tc])"
proof (cases "tc_name tc \<in> set (map name ts)")
  case True
  from execute_known[OF True, of st] show ?thesis using True by (auto simp: resolved_calls_def)
next
  case False
  then show ?thesis by (simp add: execute_unknown resolved_calls_def)
qed

lemma resolved_Cons: "resolved_calls ts (tc # tcs) = resolved_calls ts [tc] @ resolved_calls ts tcs"
  by (simp add: resolved_calls_def)

lemma run_events:
  "events (run_tool_calls ts calls st) =
     events st @ map (\<lambda>tc. ToolInvoked (tc_name tc) (tc_id tc)) (resolved_calls ts calls)"
proof (induction calls arbitrary: st)
  case Nil
  show ?case by (simp add: resolved_calls_def)
next
  case (Cons tc tcs)
  show ?case
    by (simp only: run_tool_calls.simps Cons.IH execute_events resolved_Cons[of ts tc tcs] map_append append_assoc)
qed

lemma run_messages:
  "\<exists>new. loop_messages (run_tool_calls ts calls st) = loop_messages st @ new \<and>
         map tool_call_id new = map (\<lambda>tc. Some (tc_id tc)) (resolved_calls ts calls)"
proof (induction calls arbitrary: st)
  case Nil
  show ?case by (simp add: resolved_calls_def)
next
  case (Cons tc tcs)
  obtain new1 where 1: "loop_messages (execute_tool_call ts tc st) = loop_messages st @ new1"
    "map tool_call_id new1 = map (\<lambda>tc. Some (tc_id tc)) (resolved_calls ts [tc])"
    using execute_messages[of ts tc st] by blast
  obtain new2 where 2: "loop_messages (run_tool_calls ts tcs (execute_tool_call ts tc st)) =
       loop_messages (execute_tool_call ts tc st) @ new2"
    "map tool_call_id new2 = map (\<lambda>tc. Some (tc_id tc)) (resolved_calls ts tcs)"
    using Cons.IH[of "execute_tool_call ts tc st"] by blast
  have "loop_messages (run_tool_calls ts (tc # tcs) st) = loop_messages st @ (new1 @ new2)"
    using 1 2 by simp
  moreover have "map tool_call_id (new1 @ new2) = map (\<lambda>tc. Some (tc_id tc)) (resolved_calls ts (tc # tcs))"
    using 1 2 by (simp add: resolved_Cons[of ts tc tcs])
  ultimately show ?case by blast
qed

lemma resolved_all:
  "set (map tc_name calls) \<subseteq> set (map name ts) \<Longrightarrow> resolved_calls ts calls = calls"
  by (auto simp: resolved_calls_def filter_id_conv)

lemma agent_loop_continue:
  assumes "invoke_model llm st = (Inr response, st1)" and "tool_calls response \<noteq> []"
  shows "agent_loop llm ts st = agent_loop llm ts (run_tool_calls ts (tool_calls response) st1)"
  using assms by (subst agent_loop.simps) simp

lemma agent_loop_final:
  assumes "llm (loop_messages st) (world st) = (Inr response, w')" and "tool_calls response = []"
  shows "agent_loop llm ts st =
           Some (Inr (content response),
                 st\<lparr>loop_messages := loop_messages st @ [AIMessage (content response) []],
                    iteration := iteration st + 1,
                    world := w',
                    events := events st @ [ModelInvoked (loop_messages st)]\<rparr>)"
  using assms by (subst agent_loop.simps) (simp add: invoke_model_def Let_def)

lemma invoke_model_events:
  "invoke_model llm st = (r, st1) \<Longrightarrow> events st1 = events st @ [ModelInvoked (loop_messages st)]"
  by (auto simp: invoke_model_def Let_def split: prod.splits sum.splits)

lemma agent_loop_events:
  assumes "agent_loop llm ts st = Some y"
  shows "prefix (events st @ [ModelInvoked (loop_messages st)]) (events (snd y))"
proof (rule agent_loop.raw_induct
    [where P = "\<lambda>llm ts st y. prefix (events st @ [ModelInvoked (loop_messages st)]) (events (snd y))",
     OF _ assms])
  fix loop :: "'a llm \<Rightarrow> 'a tool list \<Rightarrow> 'a loop_state \<Rightarrow> ((exn + string) \<times> 'a loop_state) option"
  fix llm ts st y
  assume IH: "\<And>llm ts st y. loop llm ts st = Some y \<Longrightarrow>
                prefix (events st @ [ModelInvoked (loop_messages st)]) (events (snd y))"
  assume body: "(case invoke_model llm st of
        (Inl e, st1) \<Rightarrow> Some (Inl e, st1)
      | (Inr response, st1) \<Rightarrow>
          if tool_calls response \<noteq> [] then
            loop llm ts (run_tool_calls ts (tool_calls response) st1)
          else Some (Inr (content response), st1)) = Some y"
  obtain r st1 where im: "invoke_model llm st = (r, st1)" by (cases "invoke_model llm st")
  note ev = invoke_model_events[OF im]
  show "prefix (events st @ [ModelInvoked (loop_messages st)]) (events (snd y))"
  proof (cases r)
    case (Inl e)
    with body im have "snd y = st1" by auto
    then show ?thesis by (simp add: ev)
  next
    case (Inr response)
    show ?thesis
    proof (cases "tool_calls response = []")
      case True
      with body im Inr have "snd y = st1" by auto
      then show ?thesis by (simp add: ev)
    next
      case False
      with body im Inr have "loop llm ts (run_tool_calls ts (tool_calls response) st1) = Some y"
        by simp
      from IH[OF this] have "prefix (events (run_tool_calls ts (tool_calls response) st1)) (events (snd y))"
        by (metis append_prefixD)
      then show ?thesis
        unfolding run_events ev by (metis append_prefixD)
    qed
  qed
qed

lemmas lower_simps = lower_def char_lower_def upper_letters_def lower_letters_def
lemmas title_simps = title_def char_upper_def char_lower_def upper_letters_def lower_letters_def

lemma matches_spec_code:
  "matches_spec lower m config = trigger_in_message (triggers config) (lower m)"
  by (simp add: matches_spec_def trigger_in_message_def trigger_in_message_with_iff)

lemma factory_sub_agents:
  "sub_agents (create_orchestrator_with_agents ga ca llm) =
     [(''gmail'', \<lparr>agent = ga, triggers = gmail_triggers\<rparr>),
      (''calendar'', \<lparr>agent = ca, triggers = calendar_triggers\<rparr>)]"
  by (simp add: create_orchestrator_with_agents_def add_sub_agent_def
      ConversationalOrchestrator_init_def)

lemma lower_overlap: "lower overlap_message = ''schedule an email to the team''"
  by (simp add: overlap_message_def lower_simps)

lemma lower_scenario_A:
  "lower scenario_A_message = ''create a meeting called team standup tomorrow at 10am for 30 minutes''"
  by (simp add: scenario_A_message_def lower_simps)

lemma gmail_not_in_scenario_A:
  "\<not> trigger_in_message gmail_triggers (lower scenario_A_message)"
  unfolding lower_scenario_A by (simp add: gmail_triggers_def lower_simps)

lemma calendar_in_scenario_A:
  "trigger_in_message calendar_triggers (lower scenario_A_message)"
  unfolding lower_scenario_A by (simp add: calendar_triggers_def lower_simps)

lemma scenario_A_route:
  "should_delegate (create_orchestrator_with_agents ga ca llm\<lparr>memory := mem\<rparr>) scenario_A_message = Some ''calendar''"
  by (simp add: should_delegate_eq factory_sub_agents gmail_not_in_scenario_A calendar_in_scenario_A)

lemma title_calendar: "title ''calendar'' = ''Calendar''"
  by (simp add: title_simps)

lemma title_gmail: "title ''gmail'' = ''Gmail''"
  by (simp add: title_simps)

lemma factory_build_graph:
  "build_graph (create_orchestrator_with_agents ga ca llm\<lparr>memory := mem\<rparr>) =
     create_orchestrator_with_agents ga ca llm\<lparr>memory := mem, graph := Some factory_nodes\<rparr>"
  by (simp add: build_graph_def delegation_nodes_def factory_sub_agents factory_nodes_def)

lemma factory_fresh:
  "create_orchestrator_with_agents ga ca llm\<lparr>memory := Map.empty\<rparr> =
   create_orchestrator_with_agents ga ca llm"
  "graph (create_orchestrator_with_agents ga ca llm\<lparr>memory := mem\<rparr>) = None"
  by (simp_all add: create_orchestrator_with_agents_def add_sub_agent_def
      ConversationalOrchestrator_init_def)

lemma scenario_A_node:
  assumes "messages state \<noteq> []" and "last (messages state) = HumanMessage scenario_A_message"
    and "sub_agents self = sub_agents (create_orchestrator_with_agents ga ca llm)"
  shows "orchestrator_node self state w = (Inr (delegation_update ''calendar'' scenario_A_message), w)"
proof -
  have "should_delegate self scenario_A_message = Some ''calendar''"
    by (simp add: should_delegate_eq assms(3) factory_sub_agents gmail_not_in_scenario_A
        calendar_in_scenario_A)
  with assms(1,2) show ?thesis
    by (simp add: orchestrator_node_eq Let_def)
qed

lemma draft_node:
  assumes "sub_agents self = sub_agents (create_orchestrator_with_agents ga ca llm)"
  shows "orchestrator_node self draft_input w =
           (Inr (delegation_update ''gmail'' ''Draft a note to Bob''), w)"
proof -
  have "should_delegate self ''Draft a note to Bob'' = Some ''gmail''"
    by (simp add: should_delegate_eq assms factory_sub_agents gmail_triggers_def lower_simps)
  then show ?thesis
    by (simp add: orchestrator_node_eq Let_def draft_input_def)
qed

lemma delegation_node_with_error:
  assumes "map_of (sub_agents self) agent_name = Some config"
    and "agent config (current_task state) w = Some (Inl (Exception e), w')"
  shows "delegation_node_with py self agent_name state w =
           Some (Inr \<lparr>messages =
                        [AIMessage (''Error processing '' @ str_title py agent_name @ '' task: '' @
                                    str_exn e) []],
                      current_task = None, delegated_to = None, task_complete = True\<rparr>, w')"
  using assms by (simp add: delegation_node_with_def)

lemma delegation_node_with_base:
  assumes "map_of (sub_agents self) agent_name = Some config"
    and "agent config (current_task state) w = Some (Inl (BaseException cls detail), w')"
  shows "delegation_node_with py self agent_name state w = Some (Inl (BaseException cls detail), w')"
  using assms by (simp add: delegation_node_with_def)

lemma should_continue_delegated:
  "delegated_to state = Some d \<Longrightarrow> d \<noteq> [] \<Longrightarrow> should_continue state = ''delegate_'' @ d"
  by (simp add: should_continue_def)

lemma should_continue_cleared: "delegated_to state = None \<Longrightarrow> should_continue state = END"
  by (simp add: should_continue_def)

lemma graph_invoke_with_delegated:
  assumes "orchestrator_node_with py self state0 w0 = (Inr update1, w)"
    and "delegated_to update1 = Some agent_name" and "agent_name \<noteq> []"
    and "map_of nodes (''delegate_'' @ agent_name) = Some agent_name"
  shows "graph_invoke_with py self nodes state0 w0 =
           (case delegation_node_with py self agent_name (apply_update state0 update1) w of
              None \<Rightarrow> None
            | Some (Inl e, w2) \<Rightarrow> Some (Inl e, w2)
            | Some (Inr update2, w2) \<Rightarrow> Some (Inr (apply_update (apply_update state0 update1) update2), w2))"
proof -
  have "should_continue (apply_update state0 update1) = ''delegate_'' @ agent_name"
    using assms(2,3) by (simp add: should_continue_delegated apply_update_def)
  then show ?thesis
    using assms(1,4) by (simp add: graph_invoke_with_def Let_def END_def)
qed

lemma graph_invoke_delegated:
  assumes "orchestrator_node self state0 w0 = (Inr update1, w)"
    and "delegated_to update1 = Some agent_name" and "agent_name \<noteq> []"
    and "map_of nodes (''delegate_'' @ agent_name) = Some agent_name"
  shows "graph_invoke self nodes state0 w0 =
           (case delegation_node self agent_name (apply_update state0 update1) w of
              None \<Rightarrow> None
            | Some (Inl e, w2) \<Rightarrow> Some (Inl e, w2)
            | Some (Inr update2, w2) \<Rightarrow> Some (Inr (apply_update (apply_update state0 update1) update2), w2))"
  using graph_invoke_with_delegated[OF assms[unfolded orchestrator_node_def]]
  by (simp add: graph_invoke_def delegation_node_def)

lemma respond_cleared:
  "respond_conversationally self msgs w = (Inr update, w1) \<Longrightarrow> cleared update"
  by (auto simp: respond_conversationally_def cleared_def split: prod.splits sum.splits)

lemma delegation_node_cleared:
  "delegation_node self agent_name state w = Some (Inr update, w1) \<Longrightarrow> cleared update"
  by (auto simp: delegation_node_eq cleared_def split: option.splits prod.splits sum.splits raised.splits)

lemma orchestrator_node_cases:
  assumes "orchestrator_node self state w = (Inr update, w1)"
  shows "cleared update \<or>
         (\<exists>d text. d \<noteq> [] \<and> last (messages state) = HumanMessage text \<and>
                   should_delegate self text = Some d \<and> update = delegation_update d text)"
  using assms
  by (auto simp: orchestrator_node_eq Let_def dest: respond_cleared
      split: if_splits message.splits option.splits)

lemma delegated_to_delegation_update: "delegated_to (delegation_update d text) = Some d"
  by (simp add: delegation_update_eq Let_def)

lemma cleared_apply_update: "cleared update \<Longrightarrow> cleared (apply_update state update)"
  by (simp add: cleared_def apply_update_def)

lemma graph_invoke_cleared:
  assumes "graph_invoke self nodes state w = Some (Inr final, w1)"
  shows "cleared final"
proof -
  obtain r wa where on: "orchestrator_node self state w = (r, wa)"
    by (cases "orchestrator_node self state w")
  show ?thesis
  proof (cases r)
    case (Inl e)
    with assms on show ?thesis by (simp add: graph_invoke_eq)
  next
    case (Inr update1)
    from orchestrator_node_cases[OF on[unfolded Inr]]
    show ?thesis
    proof
      assume c: "cleared update1"
      then have "should_continue (apply_update state update1) = END"
        by (simp add: should_continue_cleared cleared_def apply_update_def)
      with assms on Inr have "final = apply_update state update1"
        by (simp add: graph_invoke_eq Let_def)
      with c show ?thesis by (simp add: cleared_apply_update)
    next
      assume "\<exists>d text. d \<noteq> [] \<and> last (messages state) = HumanMessage text \<and>
                   should_delegate self text = Some d \<and> update1 = delegation_update d text"
      then obtain d task where d: "d \<noteq> []" "update1 = delegation_update d task" by blast
      then have sc: "should_continue (apply_update state update1) = ''delegate_'' @ d"
        by (simp add: should_continue_delegated apply_update_def delegated_to_delegation_update)
      show ?thesis
      proof (cases "map_of nodes (''delegate_'' @ d)")
        case None
        with assms on Inr sc show ?thesis
          by (simp add: graph_invoke_eq Let_def END_def)
      next
        case (Some agent_name)
        with assms on Inr sc obtain update2 where
          dn: "delegation_node self agent_name (apply_update state update1) wa = Some (Inr update2, w1)"
          and fin: "final = apply_update (apply_update state update1) update2"
          by (auto simp: graph_invoke_eq Let_def END_def split: option.splits prod.splits sum.splits raised.splits)
        from delegation_node_cleared[OF dn] show ?thesis
          unfolding fin by (rule cleared_apply_update)
      qed
    qed
  qed
qed

lemma delegation_node_success:
  assumes "map_of (sub_agents self) agent_name = Some config"
    and "agent config (current_task state) w = Some (Inr result, w')"
  shows \<open>delegation_node self agent_name state w =
           Some (Inr \<lparr>messages = [AIMessage (title agent_name @ '' task completed:\<newline>\<newline>'' @ result) []],
                      current_task = None, delegated_to = None, task_complete = True\<rparr>, w')\<close>
  using assms by (simp add: delegation_node_eq)

lemma sublist_join: "l \<in> set ls \<Longrightarrow> sublist l (join sep ls)"
proof (induction sep ls rule: join.induct)
  case (1 sep)
  then show ?case by simp
next
  case (2 sep x)
  then show ?case by simp
next
  case (3 sep x y ys)
  show ?case
  proof (cases "l = x")
    case True
    then show ?thesis by (simp add: sublist_append)
  next
    case False
    with 3 have "sublist l (join sep (y # ys))" by simp
    then show ?thesis by (simp add: sublist_append)
  qed
qed

lemma sublist_appendI2: "sublist l ys \<Longrightarrow> sublist l (xs @ ys)"
  by (simp add: sublist_append)

lemma arity_error:
  "call_parse_email [PyMessage message, PyBool include_body] =
     Inl (PyError ''TypeError''
           ''GmailGetEmailTool._parse_email() takes 2 positional arguments but 3 were given'')"
  by (simp add: call_parse_email_def digits_def)

lemma handle_error_not_format: "handle_error e context \<noteq> format_email data include_body"
  by (cases e) (auto simp: format_email_def)



lemma agent_loop_first_event:
  assumes "agent_loop llm ts st = Some (r, st')" and "events st = []"
  shows "take 1 (events st') = [ModelInvoked (loop_messages st)]"
  using agent_loop_events[OF assms(1)] assms(2) by (auto simp: prefix_def)

lemma calendar_prompt_inj:
  "calendar_get_system_prompt now = calendar_get_system_prompt now' \<Longrightarrow> now = now'"
  by (simp add: calendar_get_system_prompt_def)

section \<open>The claims\<close>

subsection \<open>C1: a tool call that names no tool of the agent\<close>

text \<open>
  C1, as amended. The claim says that a tool call whose name is not in the agent's tool
  list gets a Tool message with an error text bearing its id. The loop guards the
  execution with \<open>if tool:\<close> and has no other branch: for every tool call whose name is
  not in the tool list, the local state of the loop is left as it was (no Tool message
  is appended, nothing is invoked, nothing is raised), and the loop goes on with the
  tool calls that follow.
\<close>

theorem unknown_tool_skipped:
  assumes "tc_name tc \<notin> set (map name ts)"
  shows "execute_tool_call ts tc st = st \<and>
         run_tool_calls ts (tc # tcs) st = run_tool_calls ts tcs st"
  using assms by (simp add: execute_unknown)

theorem unknown_tool_skipped_witness:
  "tc_name draft_call \<notin> set (map name [search_tool, failing_tool]) \<and>
   execute_tool_call [search_tool, failing_tool] draft_call example_state = example_state"
proof -
  have h: "tc_name draft_call \<notin> set (map name [search_tool, failing_tool])"
    by (simp add: draft_call_def search_tool_def failing_tool_def)
  show ?thesis
    using h unknown_tool_skipped[OF h, of example_state "[]"] by simp
qed

text \<open>
  The claim as stated fails: the model asks for \<open>draft_email\<close>, the agent has the tools
  \<open>search_emails\<close> and \<open>get_email_content\<close>. \<open>process_request\<close> returns, and the final
  history holds no Tool message for \<open>call_1\<close>: the second model invocation is given the
  tool call unanswered.
\<close>

theorem unknown_tool_counterexample:
  "GmailAgent_process_request drafting_agent ''Draft an email to Bob'' () =
     Some (Inr ''Done'',
           \<lparr>loop_messages =
              [SystemMessage gmail_get_system_prompt, HumanMessage ''Draft an email to Bob'',
               AIMessage [] [draft_call], AIMessage ''Done'' []],
            iteration = 2, world = (),
            events =
              [ModelInvoked
                 [SystemMessage gmail_get_system_prompt, HumanMessage ''Draft an email to Bob''],
               ModelInvoked
                 [SystemMessage gmail_get_system_prompt, HumanMessage ''Draft an email to Bob'',
                  AIMessage [] [draft_call]]]\<rparr>)"
proof -
  have a: "agent_model drafting_agent = drafting_llm"
    "tools drafting_agent = [search_tool, failing_tool]"
    "system_prompt drafting_agent = gmail_get_system_prompt"
    by (simp_all add: drafting_agent_def add_tool_def GmailAgent_init_def Let_def)
  show ?thesis
    unfolding GmailAgent_process_request_def a
    apply (subst agent_loop.simps)
    apply (simp add: invoke_model_def drafting_llm_def Let_def
        execute_tool_call_def search_tool_def failing_tool_def draft_call_def)
    apply (subst agent_loop.simps)
    apply (simp add: invoke_model_def drafting_llm_def Let_def)
    done
qed

subsection \<open>C2: one round of tool calls\<close>

text \<open>
  C2, as amended. The claim counts one invocation and one Tool message for each of the N
  tool calls of a response. The loop executes the tool calls whose name is in the tool
  list (\<open>resolved_calls\<close>) and skips the others. For every response: the tool invocations
  made before the model is invoked again are those of the resolved tool calls, in the
  order emitted, one each; the messages appended are Tool messages whose back-references
  are the ids of the resolved tool calls, in that order, one each; no model invocation
  happens in between (\<open>iteration\<close> is unchanged, and the events added are tool invocations
  only); when every tool call names a tool of the list, all N are resolved; and after the
  round the loop continues from the state the round leaves.
\<close>

theorem tool_round:
  "(events (run_tool_calls ts calls st) =
      events st @ map (\<lambda>tc. ToolInvoked (tc_name tc) (tc_id tc)) (resolved_calls ts calls)) \<and>
   iteration (run_tool_calls ts calls st) = iteration st \<and>
   (\<exists>new. loop_messages (run_tool_calls ts calls st) = loop_messages st @ new \<and>
          map tool_call_id new = map (\<lambda>tc. Some (tc_id tc)) (resolved_calls ts calls)) \<and>
   (set (map tc_name calls) \<subseteq> set (map name ts) \<longrightarrow> resolved_calls ts calls = calls) \<and>
   (invoke_model llm st0 = (Inr response, st1) \<and> tool_calls response \<noteq> [] \<longrightarrow>
      agent_loop llm ts st0 = agent_loop llm ts (run_tool_calls ts (tool_calls response) st1))"
  using run_events[of ts calls st] run_iteration[of ts calls st] run_messages[of ts calls st]
    resolved_all[of calls ts] agent_loop_continue[of llm st0 response st1 ts]
  by blast

theorem tool_round_witness:
  "set (map tc_name [search_call, get_call]) \<subseteq> set (map name [search_tool, failing_tool]) \<and>
   resolved_calls [search_tool, failing_tool] [search_call, get_call] = [search_call, get_call] \<and>
   invoke_model searching_llm example_state =
     (Inr \<lparr>content = [], tool_calls = [search_call, get_call]\<rparr>,
      \<lparr>loop_messages =
         [HumanMessage ''Draft an email to Bob'', AIMessage [] [search_call, get_call]],
       iteration = 1, world = (),
       events = [ModelInvoked [HumanMessage ''Draft an email to Bob'']]\<rparr>) \<and>
   tool_calls \<lparr>content = [], tool_calls = [search_call, get_call]\<rparr> \<noteq> [] \<and>
   agent_loop searching_llm [search_tool, failing_tool] example_state =
     agent_loop searching_llm [search_tool, failing_tool]
       (run_tool_calls [search_tool, failing_tool] [search_call, get_call]
         \<lparr>loop_messages =
            [HumanMessage ''Draft an email to Bob'', AIMessage [] [search_call, get_call]],
          iteration = 1, world = (),
          events = [ModelInvoked [HumanMessage ''Draft an email to Bob'']]\<rparr>)"
proof -
  have sub: "set (map tc_name [search_call, get_call]) \<subseteq> set (map name [search_tool, failing_tool])"
    by (simp add: search_call_def get_call_def search_tool_def failing_tool_def)
  have im: "invoke_model searching_llm example_state =
     (Inr \<lparr>content = [], tool_calls = [search_call, get_call]\<rparr>,
      \<lparr>loop_messages =
         [HumanMessage ''Draft an email to Bob'', AIMessage [] [search_call, get_call]],
       iteration = 1, world = (),
       events = [ModelInvoked [HumanMessage ''Draft an email to Bob'']]\<rparr>)"
    by (simp add: invoke_model_def searching_llm_def example_state_def Let_def)
  show ?thesis
    using sub im
      tool_round[of "[search_tool, failing_tool]" "[search_call, get_call]" example_state
        searching_llm example_state "\<lparr>content = [], tool_calls = [search_call, get_call]\<rparr>"
        "\<lparr>loop_messages =
           [HumanMessage ''Draft an email to Bob'', AIMessage [] [search_call, get_call]],
          iteration = 1, world = (),
          events = [ModelInvoked [HumanMessage ''Draft an email to Bob'']]\<rparr>"]
    by simp
qed

text \<open>
  The claim as stated fails: of the three tool calls of a response, \<open>draft_email\<close> names no
  tool of the list; two tools are invoked and two Tool messages are appended
  (\<open>call_2\<close>, \<open>call_3\<close>), none for \<open>call_1\<close>.
\<close>

theorem tool_round_counterexample:
  "length [search_call, draft_call, get_call] = 3 \<and>
   run_tool_calls [search_tool, failing_tool] [search_call, draft_call, get_call] example_state =
     \<lparr>loop_messages =
        [HumanMessage ''Draft an email to Bob'',
         ToolMessage ''No emails found matching the search criteria.'' ''call_2'',
         ToolMessage ''Tool execution error: connection reset'' ''call_3''],
      iteration = 0, world = (),
      events = [ToolInvoked ''search_emails'' ''call_2'', ToolInvoked ''get_email_content'' ''call_3'']\<rparr>"
  by (simp add: example_state_def execute_tool_call_def search_tool_def failing_tool_def
      search_call_def draft_call_def get_call_def)

subsection \<open>C3: a response without tool calls ends the loop\<close>

text \<open>
  C3. When the model's response carries no tool calls, the loop returns: it has invoked
  the model once in that round (\<open>iteration\<close> grows by one, one model invocation and no
  tool invocation is added to the events), and the result is the text of that response,
  unchanged.
\<close>

theorem agent_loop_no_tool_calls:
  assumes "llm (loop_messages st) (world st) = (Inr response, w')"
    and "tool_calls response = []"
  shows "agent_loop llm ts st =
           Some (Inr (content response),
                 st\<lparr>loop_messages := loop_messages st @ [AIMessage (content response) []],
                    iteration := iteration st + 1,
                    world := w',
                    events := events st @ [ModelInvoked (loop_messages st)]\<rparr>)"
  using assms by (rule agent_loop_final)

theorem agent_loop_no_tool_calls_witness:
  "plain_llm (loop_messages example_state) (world example_state) =
     (Inr \<lparr>content = ''Paris'', tool_calls = []\<rparr>, ()) \<and>
   agent_loop plain_llm [search_tool] example_state =
     Some (Inr ''Paris'',
           \<lparr>loop_messages = [HumanMessage ''Draft an email to Bob'', AIMessage ''Paris'' []],
            iteration = 1, world = (),
            events = [ModelInvoked [HumanMessage ''Draft an email to Bob'']]\<rparr>)"
proof -
  have h: "plain_llm (loop_messages example_state) (world example_state) =
     (Inr \<lparr>content = ''Paris'', tool_calls = []\<rparr>, ())"
    by (simp add: plain_llm_def)
  show ?thesis
    using h agent_loop_no_tool_calls
      [of plain_llm example_state "\<lparr>content = ''Paris'', tool_calls = []\<rparr>" "()" "[search_tool]"]
    by (simp add: example_state_def)
qed

subsection \<open>C4: the system message that seeds the history\<close>

text \<open>
  C4, as amended. The claim says that both sub-agents build the system message afresh at
  every call. \<open>CalendarAgent.process_request\<close> does: the first history the model is given
  is the system message built from the clock reading of the call and the user's message,
  whatever prompt the agent stored at construction, and two different clock readings
  give two different system messages. \<open>GmailAgent.process_request\<close> seeds the history with
  the attribute \<open>system_prompt\<close>, which \<open>__init__\<close> sets once to the constant text of
  \<open>_get_system_prompt\<close> (no date or time in it) and \<open>add_tool\<close> leaves as it is.
\<close>

theorem system_message_seed:
  "(CalendarAgent_process_request self now request w = Some (r, st) \<longrightarrow>
      take 1 (events st) =
        [ModelInvoked [SystemMessage (calendar_get_system_prompt now), HumanMessage request]]) \<and>
   CalendarAgent_process_request (self\<lparr>system_prompt := p\<rparr>) now request w =
     CalendarAgent_process_request self now request w \<and>
   (calendar_get_system_prompt now = calendar_get_system_prompt now' \<longrightarrow> now = now') \<and>
   (GmailAgent_process_request gmail_self request w = Some (r', st') \<longrightarrow>
      take 1 (events st') =
        [ModelInvoked [SystemMessage (system_prompt gmail_self), HumanMessage request]]) \<and>
   system_prompt (GmailAgent_init client) = gmail_get_system_prompt \<and>
   system_prompt (add_tool gmail_self t) = system_prompt gmail_self"
proof -
  have 1: "take 1 (events st) =
        [ModelInvoked [SystemMessage (calendar_get_system_prompt now), HumanMessage request]]"
    if "CalendarAgent_process_request self now request w = Some (r, st)"
    using agent_loop_first_event[OF that[unfolded CalendarAgent_process_request_def]] by simp
  have 4: "take 1 (events st') =
        [ModelInvoked [SystemMessage (system_prompt gmail_self), HumanMessage request]]"
    if "GmailAgent_process_request gmail_self request w = Some (r', st')"
    using agent_loop_first_event[OF that[unfolded GmailAgent_process_request_def]] by simp
  have 2: "CalendarAgent_process_request (self\<lparr>system_prompt := p\<rparr>) now request w =
     CalendarAgent_process_request self now request w"
    by (simp add: CalendarAgent_process_request_def)
  have 5: "system_prompt (GmailAgent_init client) = gmail_get_system_prompt"
    by (simp add: GmailAgent_init_def)
  have 6: "system_prompt (add_tool gmail_self t) = system_prompt gmail_self"
    by (simp add: add_tool_def Let_def)
  from 1 2 4 5 6 calendar_prompt_inj[of now now'] show ?thesis by blast
qed

theorem system_message_seed_witness:
  "CalendarAgent_process_request example_calendar_agent call_time ''Am I free tomorrow?'' () =
     Some (Inr ''Paris'', calendar_final_state) \<and>
   take 1 (events calendar_final_state) =
     [ModelInvoked [SystemMessage (calendar_get_system_prompt call_time),
                    HumanMessage ''Am I free tomorrow?'']] \<and>
   system_prompt example_calendar_agent = calendar_get_system_prompt construction_time \<and>
   calendar_get_system_prompt construction_time \<noteq> calendar_get_system_prompt call_time \<and>
   GmailAgent_process_request example_gmail_agent ''Find my invoices'' () =
     Some (Inr ''Paris'', gmail_final_state) \<and>
   take 1 (events gmail_final_state) =
     [ModelInvoked [SystemMessage (system_prompt example_gmail_agent),
                    HumanMessage ''Find my invoices'']]"
proof -
  have c: "CalendarAgent_process_request example_calendar_agent call_time ''Am I free tomorrow?'' () =
     Some (Inr ''Paris'', calendar_final_state)"
    unfolding CalendarAgent_process_request_def calendar_final_state_def
    by (subst agent_loop_final[of _ _ "\<lparr>content = ''Paris'', tool_calls = []\<rparr>" "()"])
       (simp_all add: example_calendar_agent_def CalendarAgent_init_def plain_llm_def)
  have g: "GmailAgent_process_request example_gmail_agent ''Find my invoices'' () =
     Some (Inr ''Paris'', gmail_final_state)"
    unfolding GmailAgent_process_request_def gmail_final_state_def
    by (subst agent_loop_final[of _ _ "\<lparr>content = ''Paris'', tool_calls = []\<rparr>" "()"])
       (simp_all add: example_gmail_agent_def GmailAgent_init_def plain_llm_def)
  have s: "system_prompt example_calendar_agent = calendar_get_system_prompt construction_time"
    by (simp add: example_calendar_agent_def CalendarAgent_init_def)
  have t: "construction_time \<noteq> call_time"
    by (simp add: construction_time_def call_time_def)
  note th1 = system_message_seed[of example_calendar_agent call_time "''Am I free tomorrow?''" "()"
      "Inr ''Paris''" calendar_final_state _ construction_time]
  note th2 = system_message_seed[of _ _ "''Find my invoices''" "()" _ _ _ _ example_gmail_agent
      "Inr ''Paris''" gmail_final_state]
  have e1: "take 1 (events calendar_final_state) =
     [ModelInvoked [SystemMessage (calendar_get_system_prompt call_time),
                    HumanMessage ''Am I free tomorrow?'']]"
    using th1[THEN conjunct1] c by simp
  have n: "calendar_get_system_prompt construction_time \<noteq> calendar_get_system_prompt call_time"
    using th1[THEN conjunct2, THEN conjunct2, THEN conjunct1] t by simp
  have e2: "take 1 (events gmail_final_state) =
     [ModelInvoked [SystemMessage (system_prompt example_gmail_agent),
                    HumanMessage ''Find my invoices'']]"
    using th2[THEN conjunct2, THEN conjunct2, THEN conjunct2, THEN conjunct1] g by simp
  from c e1 s n g e2 show ?thesis by (intro conjI)
qed

text \<open>
  The claim as stated fails for the Gmail agent: the system message of a call is the value
  stored in the agent, here a text assigned to the attribute after construction, not the
  text a fresh call of \<open>_get_system_prompt\<close> gives.
\<close>

theorem gmail_system_message_counterexample:
  "GmailAgent_process_request edited_gmail_agent ''Find my invoices'' () =
     Some (Inr ''Paris'',
           \<lparr>loop_messages =
              [SystemMessage ''You only draft emails.'',
               HumanMessage ''Find my invoices'', AIMessage ''Paris'' []],
            iteration = 1, world = (),
            events = [ModelInvoked [SystemMessage ''You only draft emails.'',
                                    HumanMessage ''Find my invoices'']]\<rparr>) \<and>
   ''You only draft emails.'' \<noteq> gmail_get_system_prompt"
proof -
  have "GmailAgent_process_request edited_gmail_agent ''Find my invoices'' () =
     Some (Inr ''Paris'',
           \<lparr>loop_messages =
              [SystemMessage ''You only draft emails.'',
               HumanMessage ''Find my invoices'', AIMessage ''Paris'' []],
            iteration = 1, world = (),
            events = [ModelInvoked [SystemMessage ''You only draft emails.'',
                                    HumanMessage ''Find my invoices'']]\<rparr>)"
    unfolding GmailAgent_process_request_def
    by (subst agent_loop_final[of _ _ "\<lparr>content = ''Paris'', tool_calls = []\<rparr>" "()"])
       (simp_all add: edited_gmail_agent_def example_gmail_agent_def GmailAgent_init_def plain_llm_def)
  moreover have "''You only draft emails.'' \<noteq> gmail_get_system_prompt"
    by (simp add: gmail_get_system_prompt_def)
  ultimately show ?thesis by simp
qed

subsection \<open>C5: the delegation router\<close>

text \<open>
  C5. \<open>_should_delegate\<close> is the router of the specification, whatever \<open>str.lower\<close> does to a
  text (\<open>py\<close>): it returns the first sub-agent, in the order of the dict \<open>sub_agents\<close>
  (registration order), one of whose trigger phrases is, both in lower case, a substring
  of the message, and \<open>None\<close> when no sub-agent has one. So: the result is \<open>Some a\<close> exactly
  when \<open>a\<close> is the name at the first position whose triggers match; it is \<open>None\<close> exactly
  when no entry matches; an entry that matches wins over every entry registered after
  it, whatever their triggers; the result depends on the message and the table of names
  and triggers only (two orchestrators with the same table give the same choice, whatever
  their agents, models, graphs and memories), and on these through their lower-case forms
  only: two messages with the same lower-case form, and two tables whose triggers have
  the same lower-case forms, are routed alike. On ASCII text, where \<open>str.lower\<close> is \<open>lower\<close>,
  the router is \<open>should_delegate\<close>, and a message in upper case is routed as the message.
\<close>

theorem should_delegate_first_match:
  "should_delegate_with py self m = route_spec (str_lower py) (sub_agents self) m \<and>
   (should_delegate_with py self m = Some a \<longleftrightarrow>
      (\<exists>i < length (sub_agents self).
         fst (sub_agents self ! i) = a \<and>
         matches_spec (str_lower py) m (snd (sub_agents self ! i)) \<and>
         (\<forall>j < i. \<not> matches_spec (str_lower py) m (snd (sub_agents self ! j))))) \<and>
   (should_delegate_with py self m = None \<longleftrightarrow>
      (\<forall>entry \<in> set (sub_agents self). \<not> matches_spec (str_lower py) m (snd entry))) \<and>
   (sub_agents self = before @ (first, config) # after \<and>
    (\<forall>entry \<in> set before. \<not> matches_spec (str_lower py) m (snd entry)) \<and>
    matches_spec (str_lower py) m config \<longrightarrow>
      should_delegate_with py self m = Some first) \<and>
   (trigger_table self = trigger_table other \<longrightarrow>
      should_delegate_with py self m = should_delegate_with py other m) \<and>
   (lowered_table (str_lower py) self = lowered_table (str_lower py) other \<longrightarrow>
      should_delegate_with py self m = should_delegate_with py other m) \<and>
   (str_lower py m = str_lower py m' \<longrightarrow>
      should_delegate_with py self m = should_delegate_with py self m') \<and>
   ((\<forall>s. ascii s \<longrightarrow> str_lower py s = lower s) \<and> ascii m \<and> ascii_triggers self \<longrightarrow>
      should_delegate_with py self m = should_delegate self m \<and>
      should_delegate_with py self (upper m) = should_delegate_with py self m)"
proof -
  let ?lc = "str_lower py"
  have 1: "should_delegate_with py self m = route_spec ?lc (sub_agents self) m"
    by (rule should_delegate_with_route)
  have 4: "sub_agents self = before @ (first, config) # after \<and>
    (\<forall>entry \<in> set before. \<not> matches_spec ?lc m (snd entry)) \<and> matches_spec ?lc m config \<longrightarrow>
      should_delegate_with py self m = Some first"
    unfolding should_delegate_with_route by (auto intro: route_spec_first)
  have 6: "lowered_table ?lc self = lowered_table ?lc other \<longrightarrow>
      should_delegate_with py self m = should_delegate_with py other m"
    unfolding lowered_table_def should_delegate_with_route by (auto intro: route_spec_lowered)
  have 5: "trigger_table self = trigger_table other \<longrightarrow>
      should_delegate_with py self m = should_delegate_with py other m"
    unfolding trigger_table_def should_delegate_with_route
    by (auto intro: route_spec_lowered lowered_of_trigger_table)
  have 7: "?lc m = ?lc m' \<longrightarrow> should_delegate_with py self m = should_delegate_with py self m'"
    unfolding should_delegate_with_route by (auto intro: route_spec_message)
  have 8: "should_delegate_with py self m = should_delegate self m \<and>
      should_delegate_with py self (upper m) = should_delegate_with py self m"
    if lc: "\<forall>s. ascii s \<longrightarrow> ?lc s = lower s" and m: "ascii m" and ts: "ascii_triggers self"
  proof
    from lc have lc': "\<And>s. ascii s \<Longrightarrow> ?lc s = lower s" by blast
    show "should_delegate_with py self m = should_delegate self m"
      unfolding should_delegate_with_route should_delegate_route
      using lc' m ts[unfolded ascii_triggers_def] by (rule route_spec_ascii)
    have "?lc (upper m) = lower (upper m)" using lc' ascii_upper[OF m] by blast
    also have "\<dots> = lower m" by (rule lower_upper)
    also have "\<dots> = ?lc m" using lc' m by simp
    finally show "should_delegate_with py self (upper m) = should_delegate_with py self m"
      unfolding should_delegate_with_route by (rule route_spec_message)
  qed
  have 2: "should_delegate_with py self m = Some a \<longleftrightarrow>
      (\<exists>i < length (sub_agents self).
         fst (sub_agents self ! i) = a \<and>
         matches_spec ?lc m (snd (sub_agents self ! i)) \<and>
         (\<forall>j < i. \<not> matches_spec ?lc m (snd (sub_agents self ! j))))"
    unfolding should_delegate_with_route by (rule route_spec_Some)
  have 3: "should_delegate_with py self m = None \<longleftrightarrow>
      (\<forall>entry \<in> set (sub_agents self). \<not> matches_spec ?lc m (snd entry))"
    unfolding should_delegate_with_route by (rule route_spec_None)
  from 8 have last_part: "(\<forall>s. ascii s \<longrightarrow> ?lc s = lower s) \<and> ascii m \<and> ascii_triggers self \<longrightarrow>
      should_delegate_with py self m = should_delegate self m \<and>
      should_delegate_with py self (upper m) = should_delegate_with py self m"
    by blast
  from 1 2 3 4 5 6 7 last_part show ?thesis by (intro conjI)
qed

theorem should_delegate_first_match_witness:
  "sub_agents example_orchestrator =
     [] @ (''gmail'', \<lparr>agent = raising_agent, triggers = gmail_triggers\<rparr>) #
       [(''calendar'', \<lparr>agent = answering_agent, triggers = calendar_triggers\<rparr>)] \<and>
   matches_spec (str_lower ascii_str) overlap_message
     \<lparr>agent = raising_agent, triggers = gmail_triggers\<rparr> \<and>
   matches_spec (str_lower ascii_str) overlap_message
     \<lparr>agent = answering_agent, triggers = calendar_triggers\<rparr> \<and>
   trigger_table example_orchestrator = trigger_table other_orchestrator \<and>
   str_lower ascii_str = lower \<and> ascii overlap_message \<and> ascii_triggers example_orchestrator \<and>
   should_delegate_with ascii_str example_orchestrator overlap_message = Some ''gmail'' \<and>
   should_delegate_with ascii_str other_orchestrator overlap_message = Some ''gmail'' \<and>
   should_delegate_with ascii_str example_orchestrator (upper overlap_message) = Some ''gmail'' \<and>
   should_delegate example_orchestrator overlap_message = Some ''gmail'' \<and>
   upper overlap_message = ''SCHEDULE AN EMAIL TO THE TEAM''"
proof -
  have s: "sub_agents example_orchestrator =
     [] @ (''gmail'', \<lparr>agent = raising_agent, triggers = gmail_triggers\<rparr>) #
       [(''calendar'', \<lparr>agent = answering_agent, triggers = calendar_triggers\<rparr>)]"
    by (simp add: example_orchestrator_def factory_sub_agents)
  have l: "str_lower ascii_str = lower"
    by (simp add: ascii_str_def)
  have g: "matches_spec (str_lower ascii_str) overlap_message
             \<lparr>agent = raising_agent, triggers = gmail_triggers\<rparr>"
    unfolding l matches_spec_code lower_overlap by (simp add: gmail_triggers_def lower_simps)
  have c: "matches_spec (str_lower ascii_str) overlap_message
             \<lparr>agent = answering_agent, triggers = calendar_triggers\<rparr>"
    unfolding l matches_spec_code lower_overlap by (simp add: calendar_triggers_def lower_simps)
  have t: "trigger_table example_orchestrator = trigger_table other_orchestrator"
    by (simp add: trigger_table_def example_orchestrator_def other_orchestrator_def factory_sub_agents)
  have am: "ascii overlap_message"
    by (simp add: ascii_def overlap_message_def)
  have at: "ascii_triggers example_orchestrator"
    by (simp add: ascii_triggers_def example_orchestrator_def factory_sub_agents
        gmail_triggers_def calendar_triggers_def ascii_def)
  have u: "upper overlap_message = ''SCHEDULE AN EMAIL TO THE TEAM''"
    by (simp add: upper_def overlap_message_def char_upper_def upper_letters_def lower_letters_def)
  note th = should_delegate_first_match[of ascii_str example_orchestrator overlap_message "''gmail''"
        "[]" "''gmail''" "\<lparr>agent = raising_agent, triggers = gmail_triggers\<rparr>"
        "[(''calendar'', \<lparr>agent = answering_agent, triggers = calendar_triggers\<rparr>)]"
        other_orchestrator overlap_message]
  note tie = th[THEN conjunct2, THEN conjunct2, THEN conjunct2, THEN conjunct1]
  note same = th[THEN conjunct2, THEN conjunct2, THEN conjunct2, THEN conjunct2, THEN conjunct1]
  note asc = th[THEN conjunct2, THEN conjunct2, THEN conjunct2, THEN conjunct2, THEN conjunct2,
      THEN conjunct2, THEN conjunct2]
  have r1: "should_delegate_with ascii_str example_orchestrator overlap_message = Some ''gmail''"
    using tie s g by simp
  have r2: "should_delegate_with ascii_str other_orchestrator overlap_message = Some ''gmail''"
    using same t r1 by simp
  have a2: "should_delegate_with ascii_str example_orchestrator overlap_message =
              should_delegate example_orchestrator overlap_message \<and>
            should_delegate_with ascii_str example_orchestrator (upper overlap_message) =
              should_delegate_with ascii_str example_orchestrator overlap_message"
    using asc l am at by simp
  have r3: "should_delegate_with ascii_str example_orchestrator (upper overlap_message) = Some ''gmail''"
    using a2 r1 by simp
  have r4: "should_delegate example_orchestrator overlap_message = Some ''gmail''"
    using a2 r1 by simp
  from s g c t l am at r1 r2 r3 r4 u show ?thesis by (intro conjI)
qed

subsection \<open>C6: a sub-agent that raises\<close>

text \<open>
  C6, as amended. The claim says that every exception raised by the sub-agent's
  \<open>process_request\<close> is caught. The handler of the node is \<open>except Exception\<close>. When
  \<open>process_request\<close> raises an exception \<open>e\<close> derived from \<open>Exception\<close> in the node
  \<open>delegate_<name>\<close>, the node does not raise: it returns the update with the single AI
  message \<open>Error processing <Name> task: <str(e)>\<close> (\<open><Name>\<close> is \<open>name.title()\<close>),
  \<open>current_task\<close> and \<open>delegated_to\<close> \<open>None\<close> and \<open>task_complete\<close> true, the fields the success
  branch sets too; a run of the graph that reaches the node this way returns normally,
  with that message last and \<open>task_complete\<close> true. When \<open>process_request\<close> raises an
  exception that is not derived from \<open>Exception\<close> (\<open>KeyboardInterrupt\<close>, \<open>SystemExit\<close>,
  \<open>GeneratorExit\<close>), the node does not catch it: the node and the run of the graph raise
  it.
\<close>

theorem delegation_failure_caught:
  assumes "map_of (sub_agents self) agent_name = Some config"
    and "error_update =
           \<lparr>messages =
              [AIMessage (''Error processing '' @ str_title py agent_name @ '' task: '' @
                          str_exn e) []],
            current_task = None, delegated_to = None, task_complete = True\<rparr>"
    and "reached \<longleftrightarrow>
           orchestrator_node_with py self start w_start = (Inr ack, w) \<and>
           delegated_to ack = Some agent_name \<and> agent_name \<noteq> [] \<and>
           map_of nodes (''delegate_'' @ agent_name) = Some agent_name \<and>
           state = apply_update start ack"
  shows "(agent config (current_task state) w = Some (Inl (Exception e), w') \<longrightarrow>
            delegation_node_with py self agent_name state w = Some (Inr error_update, w') \<and>
            (reached \<longrightarrow>
               graph_invoke_with py self nodes start w_start =
                 Some (Inr (apply_update state error_update), w') \<and>
               task_complete (apply_update state error_update) \<and>
               current_task (apply_update state error_update) = None \<and>
               delegated_to (apply_update state error_update) = None \<and>
               last (messages (apply_update state error_update)) =
                 AIMessage (''Error processing '' @ str_title py agent_name @ '' task: '' @
                            str_exn e) [])) \<and>
         (agent config (current_task state) w = Some (Inr result, w') \<longrightarrow>
            (\<exists>done_update.
               delegation_node_with py self agent_name state w = Some (Inr done_update, w') \<and>
               current_task done_update = current_task error_update \<and>
               delegated_to done_update = delegated_to error_update \<and>
               task_complete done_update = task_complete error_update)) \<and>
         (agent config (current_task state) w = Some (Inl (BaseException cls detail), w') \<longrightarrow>
            delegation_node_with py self agent_name state w =
              Some (Inl (BaseException cls detail), w') \<and>
            (reached \<longrightarrow>
               graph_invoke_with py self nodes start w_start = Some (Inl (BaseException cls detail), w')))"
proof -
  have gi: "graph_invoke_with py self nodes start w_start =
              (case delegation_node_with py self agent_name state w of
                 None \<Rightarrow> None
               | Some (Inl e, w2) \<Rightarrow> Some (Inl e, w2)
               | Some (Inr update2, w2) \<Rightarrow> Some (Inr (apply_update state update2), w2))"
    if reached
  proof -
    from that have r: "orchestrator_node_with py self start w_start = (Inr ack, w)"
      "delegated_to ack = Some agent_name" "agent_name \<noteq> []"
      "map_of nodes (''delegate_'' @ agent_name) = Some agent_name"
      and st: "state = apply_update start ack"
      unfolding assms(3) by blast+
    show ?thesis unfolding st by (rule graph_invoke_with_delegated[OF r])
  qed
  have 1: "delegation_node_with py self agent_name state w = Some (Inr error_update, w') \<and>
            (reached \<longrightarrow>
               graph_invoke_with py self nodes start w_start =
                 Some (Inr (apply_update state error_update), w') \<and>
               task_complete (apply_update state error_update) \<and>
               current_task (apply_update state error_update) = None \<and>
               delegated_to (apply_update state error_update) = None \<and>
               last (messages (apply_update state error_update)) =
                 AIMessage (''Error processing '' @ str_title py agent_name @ '' task: '' @
                            str_exn e) [])"
    if a: "agent config (current_task state) w = Some (Inl (Exception e), w')"
  proof -
    have node: "delegation_node_with py self agent_name state w = Some (Inr error_update, w')"
      unfolding assms(2) using assms(1) a by (rule delegation_node_with_error)
    have "graph_invoke_with py self nodes start w_start =
            Some (Inr (apply_update state error_update), w')" if reached
      using gi[OF that] node by simp
    moreover have "task_complete (apply_update state error_update)"
      "current_task (apply_update state error_update) = None"
      "delegated_to (apply_update state error_update) = None"
      "last (messages (apply_update state error_update)) =
         AIMessage (''Error processing '' @ str_title py agent_name @ '' task: '' @ str_exn e) []"
      by (simp_all add: apply_update_def assms(2))
    ultimately show ?thesis using node by blast
  qed
  have 2: "\<exists>done_update.
               delegation_node_with py self agent_name state w = Some (Inr done_update, w') \<and>
               current_task done_update = current_task error_update \<and>
               delegated_to done_update = delegated_to error_update \<and>
               task_complete done_update = task_complete error_update"
    if "agent config (current_task state) w = Some (Inr result, w')"
    using assms(1) that by (simp add: delegation_node_with_def assms(2))
  have 3: "delegation_node_with py self agent_name state w =
              Some (Inl (BaseException cls detail), w') \<and>
            (reached \<longrightarrow>
               graph_invoke_with py self nodes start w_start = Some (Inl (BaseException cls detail), w'))"
    if a: "agent config (current_task state) w = Some (Inl (BaseException cls detail), w')"
  proof -
    have node: "delegation_node_with py self agent_name state w =
                  Some (Inl (BaseException cls detail), w')"
      using assms(1) a by (rule delegation_node_with_base)
    have "graph_invoke_with py self nodes start w_start = Some (Inl (BaseException cls detail), w')"
      if reached
      using gi[OF that] node by simp
    with node show ?thesis by blast
  qed
  from 1 2 3 show ?thesis by blast
qed

theorem delegation_failure_caught_witness:
  \<open>map_of (sub_agents example_orchestrator) ''gmail'' =
     Some \<lparr>agent = raising_agent, triggers = gmail_triggers\<rparr> \<and>
   raising_agent
       (current_task (apply_update draft_input (delegation_update ''gmail'' ''Draft a note to Bob''))) () =
     Some (Inl (Exception (PyError ''ConnectionError'' ''connection refused'')), ()) \<and>
   orchestrator_node_with ascii_str example_orchestrator draft_input () =
     (Inr (delegation_update ''gmail'' ''Draft a note to Bob''), ()) \<and>
   delegated_to (delegation_update ''gmail'' ''Draft a note to Bob'') = Some ''gmail'' \<and>
   map_of factory_nodes (''delegate_'' @ ''gmail'') = Some ''gmail'' \<and>
   graph_invoke_with ascii_str example_orchestrator factory_nodes draft_input () =
     Some (Inr \<lparr>messages =
                  [HumanMessage ''Draft a note to Bob'',
                   AIMessage ''I'll help you with that Gmail task. Let me process your request...\<newline>\<newline>Delegating to Gmail agent...'' [],
                   AIMessage ''Error processing Gmail task: connection refused'' []],
                current_task = None, delegated_to = None, task_complete = True\<rparr>, ()) \<and>
   map_of (sub_agents interrupted_orchestrator) ''gmail'' =
     Some \<lparr>agent = interrupted_agent, triggers = gmail_triggers\<rparr> \<and>
   interrupted_agent
       (current_task (apply_update draft_input (delegation_update ''gmail'' ''Draft a note to Bob''))) () =
     Some (Inl (BaseException ''KeyboardInterrupt'' []), ()) \<and>
   orchestrator_node_with ascii_str interrupted_orchestrator draft_input () =
     (Inr (delegation_update ''gmail'' ''Draft a note to Bob''), ()) \<and>
   graph_invoke_with ascii_str interrupted_orchestrator factory_nodes draft_input () =
     Some (Inl (BaseException ''KeyboardInterrupt'' []), ())\<close>
proof -
  let ?upd = "delegation_update ''gmail'' ''Draft a note to Bob''"
  let ?state = "apply_update draft_input ?upd"
  have sa: "sub_agents example_orchestrator =
              sub_agents (create_orchestrator_with_agents raising_agent answering_agent plain_llm)"
    by (simp add: example_orchestrator_def)
  have sb: "sub_agents interrupted_orchestrator =
              sub_agents (create_orchestrator_with_agents interrupted_agent answering_agent plain_llm)"
    by (simp add: interrupted_orchestrator_def)
  have h1: "map_of (sub_agents example_orchestrator) ''gmail'' =
     Some \<lparr>agent = raising_agent, triggers = gmail_triggers\<rparr>"
    by (simp add: sa factory_sub_agents)
  have k1: "map_of (sub_agents interrupted_orchestrator) ''gmail'' =
     Some \<lparr>agent = interrupted_agent, triggers = gmail_triggers\<rparr>"
    by (simp add: sb factory_sub_agents)
  have h2: "agent \<lparr>agent = raising_agent, triggers = gmail_triggers\<rparr> (current_task ?state) () =
     Some (Inl (Exception (PyError ''ConnectionError'' ''connection refused'')), ())"
    by (simp add: raising_agent_def)
  have k2: "agent \<lparr>agent = interrupted_agent, triggers = gmail_triggers\<rparr> (current_task ?state) () =
     Some (Inl (BaseException ''KeyboardInterrupt'' []), ())"
    by (simp add: interrupted_agent_def)
  have h3: "orchestrator_node_with ascii_str example_orchestrator draft_input () = (Inr ?upd, ())"
    using draft_node[OF sa] by (simp add: orchestrator_node_def)
  have k3: "orchestrator_node_with ascii_str interrupted_orchestrator draft_input () = (Inr ?upd, ())"
    using draft_node[OF sb] by (simp add: orchestrator_node_def)
  have h4: "delegated_to ?upd = Some ''gmail''"
    by (rule delegated_to_delegation_update)
  have h5: "map_of factory_nodes (''delegate_'' @ ''gmail'') = Some ''gmail''"
    by (simp add: factory_nodes_def)
  have t: "str_title ascii_str ''gmail'' = ''Gmail''"
    by (simp add: ascii_str_def title_gmail)
  note th1 = delegation_failure_caught[where py = ascii_str and self = example_orchestrator
      and agent_name = "''gmail''" and config = "\<lparr>agent = raising_agent, triggers = gmail_triggers\<rparr>"
      and e = "PyError ''ConnectionError'' ''connection refused''" and state = ?state
      and w = "()" and w' = "()" and start = draft_input and w_start = "()" and ack = ?upd
      and nodes = factory_nodes, OF h1 refl refl, THEN conjunct1]
  note th2 = delegation_failure_caught[where py = ascii_str and self = interrupted_orchestrator
      and agent_name = "''gmail''" and config = "\<lparr>agent = interrupted_agent, triggers = gmail_triggers\<rparr>"
      and cls = "''KeyboardInterrupt''" and detail = "[]" and state = ?state
      and w = "()" and w' = "()" and start = draft_input and w_start = "()" and ack = ?upd
      and nodes = factory_nodes, OF k1 refl refl, THEN conjunct2, THEN conjunct2]
  have g: \<open>graph_invoke_with ascii_str example_orchestrator factory_nodes draft_input () =
     Some (Inr \<lparr>messages =
                  [HumanMessage ''Draft a note to Bob'',
                   AIMessage ''I'll help you with that Gmail task. Let me process your request...\<newline>\<newline>Delegating to Gmail agent...'' [],
                   AIMessage ''Error processing Gmail task: connection refused'' []],
                current_task = None, delegated_to = None, task_complete = True\<rparr>, ())\<close>
    using th1 h2 h3 h4 h5
    by (simp add: t apply_update_def draft_input_def delegation_update_eq Let_def title_gmail)
  have g2: "graph_invoke_with ascii_str interrupted_orchestrator factory_nodes draft_input () =
     Some (Inl (BaseException ''KeyboardInterrupt'' []), ())"
    using th2 k2 k3 h4 h5 by simp
  from h1 h2 h3 h4 h5 g k1 k2 k3 g2 show ?thesis by simp
qed

text \<open>
  The claim as stated fails: while the Gmail agent handles the request, the user presses
  the interrupt key. \<open>process_request\<close> raises \<open>KeyboardInterrupt\<close>, which is not derived from
  \<open>Exception\<close>; the node does not catch it, and \<open>chat\<close> raises it to its caller. No AI message
  \<open>Error processing Gmail task: ...\<close> is produced.
\<close>

theorem delegation_failure_counterexample:
  "chat interrupted_orchestrator ''Draft a note to Bob'' ''default'' () =
     Some (Inl (BaseException ''KeyboardInterrupt'' []), ())"
proof -
  have sb: "sub_agents interrupted_orchestrator =
              sub_agents (create_orchestrator_with_agents interrupted_agent answering_agent plain_llm)"
    by (simp add: interrupted_orchestrator_def)
  have n: "orchestrator_node (build_graph interrupted_orchestrator) draft_input () =
             (Inr (delegation_update ''gmail'' ''Draft a note to Bob''), ())"
    by (rule draft_node) (simp add: build_graph_def sb)
  have d: "delegation_node (build_graph interrupted_orchestrator) ''gmail''
             (apply_update draft_input (delegation_update ''gmail'' ''Draft a note to Bob'')) () =
           Some (Inl (BaseException ''KeyboardInterrupt'' []), ())"
    by (simp add: delegation_node_eq build_graph_def sb factory_sub_agents interrupted_agent_def)
  have g: "graph_invoke (build_graph interrupted_orchestrator) factory_nodes draft_input () =
             Some (Inl (BaseException ''KeyboardInterrupt'' []), ())"
    using graph_invoke_delegated[OF n, of "''gmail''" factory_nodes] d
    by (simp add: delegated_to_delegation_update factory_nodes_def)
  have g0: "graph interrupted_orchestrator = None"
    and nd: "delegation_nodes interrupted_orchestrator = factory_nodes"
    and mm: "memory (build_graph interrupted_orchestrator) ''default'' = None"
    by (simp_all add: interrupted_orchestrator_def create_orchestrator_with_agents_def
        add_sub_agent_def ConversationalOrchestrator_init_def delegation_nodes_def
        factory_nodes_def build_graph_def)
  show ?thesis
    unfolding chat_eq Let_def
    by (simp add: g0 nd mm checkpoint_merge_def g[unfolded draft_input_def])
qed

subsection \<open>C7: Scenario A\<close>

text \<open>
  C7. On the message of Scenario A, with the two sub-agents the factory registers (whatever
  the agents, the model, and the history the thread has so far): the router returns
  \<open>calendar\<close> (the message contains the triggers \<open>meeting\<close> and \<open>team standup\<close>, and no Gmail
  trigger); the orchestrator node takes the delegation branch and the conditional edge
  leads to \<open>delegate_calendar\<close>; and when the calendar agent returns the text \<open>result\<close>,
  \<open>chat\<close> returns \<open>Calendar task completed:\<close>, an empty line, and \<open>result\<close>.
\<close>

theorem scenario_A_delegates_to_calendar:
  assumes "calendar_agent (Some scenario_A_message) w = Some (Inr result, w')"
    and "orch = create_orchestrator_with_agents gmail_agent calendar_agent llm\<lparr>memory := mem\<rparr>"
    and "state0 = checkpoint_merge (mem thread_id) scenario_A_input"
  shows \<open>should_delegate orch scenario_A_message = Some ''calendar'' \<and>
         str_contains (lower scenario_A_message) ''meeting'' \<and>
         str_contains (lower scenario_A_message) ''team standup'' \<and>
         \<not> trigger_in_message gmail_triggers (lower scenario_A_message) \<and>
         orchestrator_node (build_graph orch) state0 w =
           (Inr (delegation_update ''calendar'' scenario_A_message), w) \<and>
         should_continue (apply_update state0 (delegation_update ''calendar'' scenario_A_message)) =
           ''delegate_calendar'' \<and>
         (\<exists>orch'. chat orch scenario_A_message thread_id w =
            Some (Inr (''Calendar task completed:\<newline>\<newline>'' @ result, orch'), w'))\<close>
proof -
  note orch_def = assms(2) and state0_def = assms(3)
  let ?upd = "delegation_update ''calendar'' scenario_A_message"
  let ?done = \<open>\<lparr>messages = [AIMessage (''Calendar task completed:\<newline>\<newline>'' @ result) []],
                current_task = None, delegated_to = None, task_complete = True\<rparr>\<close>
  have m0: "messages state0 \<noteq> []"
    and l0: "last (messages state0) = HumanMessage scenario_A_message"
    by (auto simp: state0_def checkpoint_merge_def scenario_A_input_def apply_update_def
        split: option.splits)
  have bg: "build_graph orch =
        create_orchestrator_with_agents gmail_agent calendar_agent llm
          \<lparr>memory := mem, graph := Some factory_nodes\<rparr>"
    unfolding orch_def by (rule factory_build_graph)
  have sa: "sub_agents (build_graph orch) =
              sub_agents (create_orchestrator_with_agents gmail_agent calendar_agent llm)"
    unfolding bg by simp
  have node: "orchestrator_node (build_graph orch) state0 w = (Inr ?upd, w)"
    by (rule scenario_A_node[OF m0 l0 sa])
  have cont: "should_continue (apply_update state0 ?upd) = ''delegate_calendar''"
    by (simp add: should_continue_def apply_update_def delegation_update_eq Let_def)
  have dn: "delegation_node (build_graph orch) ''calendar'' (apply_update state0 ?upd) w =
              Some (Inr ?done, w')"
    using delegation_node_success[of "build_graph orch" "''calendar''"
        "\<lparr>agent = calendar_agent, triggers = calendar_triggers\<rparr>" "apply_update state0 ?upd" w result w']
      assms(1)
    by (simp add: sa factory_sub_agents apply_update_def delegation_update_eq Let_def title_calendar)
  have gi: "graph_invoke (build_graph orch) factory_nodes state0 w =
              Some (Inr (apply_update (apply_update state0 ?upd) ?done), w')"
    using graph_invoke_delegated[OF node, of "''calendar''" factory_nodes] dn
    by (simp add: delegated_to_delegation_update factory_nodes_def)
  have g0: "graph orch = None"
    unfolding orch_def by (rule factory_fresh(2))
  have mem_bg: "memory (build_graph orch) = mem"
    unfolding bg by simp
  have gr_bg: "delegation_nodes orch = factory_nodes"
    unfolding orch_def by (simp add: delegation_nodes_def factory_sub_agents factory_nodes_def)
  have ch: \<open>\<exists>orch'. chat orch scenario_A_message thread_id w =
            Some (Inr (''Calendar task completed:\<newline>\<newline>'' @ result, orch'), w')\<close>
    unfolding chat_eq Let_def
    by (simp add: g0 mem_bg gr_bg gi[unfolded state0_def scenario_A_input_def] apply_update_def)
  have c1: "str_contains (lower scenario_A_message) ''meeting''"
    unfolding lower_scenario_A by simp
  have c2: "str_contains (lower scenario_A_message) ''team standup''"
    unfolding lower_scenario_A by simp
  have r: "should_delegate orch scenario_A_message = Some ''calendar''"
    unfolding orch_def by (rule scenario_A_route)
  from r c1 c2 gmail_not_in_scenario_A node cont ch show ?thesis by (intro conjI)
qed

theorem scenario_A_delegates_to_calendar_witness:
  \<open>answering_agent (Some scenario_A_message) () = Some (Inr ''Created event Team Standup'', ()) \<and>
   example_orchestrator =
     create_orchestrator_with_agents raising_agent answering_agent plain_llm\<lparr>memory := Map.empty\<rparr> \<and>
   scenario_A_input = checkpoint_merge (Map.empty ''default'') scenario_A_input \<and>
   should_delegate example_orchestrator scenario_A_message = Some ''calendar'' \<and>
   should_continue (apply_update scenario_A_input (delegation_update ''calendar'' scenario_A_message)) =
     ''delegate_calendar'' \<and>
   (\<exists>orch'. chat example_orchestrator scenario_A_message ''default'' () =
      Some (Inr (''Calendar task completed:\<newline>\<newline>Created event Team Standup'', orch'), ()))\<close>
proof -
  have h1: "answering_agent (Some scenario_A_message) () = Some (Inr ''Created event Team Standup'', ())"
    by (simp add: answering_agent_def)
  have h2: "example_orchestrator =
     create_orchestrator_with_agents raising_agent answering_agent plain_llm\<lparr>memory := Map.empty\<rparr>"
    by (simp add: example_orchestrator_def factory_fresh(1))
  have h3: "scenario_A_input = checkpoint_merge (Map.empty ''default'') scenario_A_input"
    by (simp add: checkpoint_merge_def)
  note th = scenario_A_delegates_to_calendar[OF h1 h2 h3]
  have r: "should_delegate example_orchestrator scenario_A_message = Some ''calendar''"
    by (rule th[THEN conjunct1])
  have c: "should_continue (apply_update scenario_A_input (delegation_update ''calendar'' scenario_A_message)) =
     ''delegate_calendar''"
    by (rule th[THEN conjunct2, THEN conjunct2, THEN conjunct2, THEN conjunct2, THEN conjunct2,
          THEN conjunct1])
  have ch: \<open>\<exists>orch'. chat example_orchestrator scenario_A_message ''default'' () =
      Some (Inr (''Calendar task completed:\<newline>\<newline>Created event Team Standup'', orch'), ())\<close>
    using th[THEN conjunct2, THEN conjunct2, THEN conjunct2, THEN conjunct2, THEN conjunct2,
          THEN conjunct2]
    by simp
  from h1 h2 h3 r c ch show ?thesis by (intro conjI)
qed

subsection \<open>C8: a label that is not allowed\<close>

text \<open>
  C8. When the lower-case form of the label is not among the lower-case forms of the
  allowed labels, \<open>apply_email_label\<close> returns the text \<open>Error: '<label>' is not an allowed
  label. Allowed labels are: <the allowed labels, separated by commas>\<close>; every allowed
  label occurs in the returned text; no request is sent to the remote service (the
  outside, with its log of requests, is returned as it was); and the result is a text,
  not an exception.
\<close>

theorem disallowed_label_rejected:
  assumes "lower label \<notin> set (map lower allowed_labels)"
  shows "GmailApplyLabelTool_run service allowed_labels email_id label w =
           (''Error: '' @ apostrophe @ label @ apostrophe @
            '' is not an allowed label. Allowed labels are: '' @ join '', '' allowed_labels, w) \<and>
         (\<forall>l \<in> set allowed_labels.
            sublist l (fst (GmailApplyLabelTool_run service allowed_labels email_id label w))) \<and>
         api_log (snd (GmailApplyLabelTool_run service allowed_labels email_id label w)) = api_log w"
proof -
  have run: "GmailApplyLabelTool_run service allowed_labels email_id label w =
           (''Error: '' @ apostrophe @ label @ apostrophe @
            '' is not an allowed label. Allowed labels are: '' @ join '', '' allowed_labels, w)"
    using assms by (simp add: GmailApplyLabelTool_run_def)
  have "sublist l (fst (GmailApplyLabelTool_run service allowed_labels email_id label w))"
    if "l \<in> set allowed_labels" for l
    unfolding run fst_conv
    by (intro sublist_appendI2 sublist_join that)
  then show ?thesis using run by simp
qed

theorem disallowed_label_rejected_witness:
  "lower ''Urgent'' \<notin> set (map lower DEFAULT_LABELS) \<and>
   GmailApplyLabelTool_run example_service DEFAULT_LABELS ''18c7'' ''Urgent'' example_world =
     (''Error: '' @ apostrophe @ ''Urgent'' @ apostrophe @
      '' is not an allowed label. Allowed labels are: Spam, News, University, Financial, Personal, Work, Promotions, Meeting, Other'',
      example_world) \<and>
   api_log (snd (GmailApplyLabelTool_run example_service DEFAULT_LABELS ''18c7'' ''Urgent'' example_world)) = []"
proof -
  have h: "lower ''Urgent'' \<notin> set (map lower DEFAULT_LABELS)"
    by (simp add: DEFAULT_LABELS_def lower_simps)
  have j: "join '', '' DEFAULT_LABELS =
      ''Spam, News, University, Financial, Personal, Work, Promotions, Meeting, Other''"
    by (simp add: DEFAULT_LABELS_def)
  show ?thesis
    using h disallowed_label_rejected[OF h, of example_service "''18c7''" example_world]
    by (simp add: j example_world_def)
qed

subsection \<open>C9: get\_email\_content\<close>

text \<open>
  C9, as amended. The claim says that the result always has the form \<open>Error in retrieving
  email <id>: ...\<close>. \<open>get_email_content\<close> never returns the content of the email: its result
  is always a text of \<open>_handle_error\<close>, never the formatted email. When the remote request
  for the message succeeds, the call \<open>self._parse_email(message, include_body)\<close> passes two
  arguments to a method that takes one, the \<open>TypeError\<close> is caught, and the result is
  \<open>Error in retrieving email <id>: <the TypeError's text>\<close>. When the remote request
  itself raises, the result is the text of \<open>_handle_error\<close> for that exception, which for
  an \<open>HttpError\<close> has another form.
\<close>

theorem get_email_never_returns_content:
  "(\<exists>e. fst (GmailGetEmailTool_run service email_id include_body w) =
          handle_error e (''retrieving email '' @ email_id)) \<and>
   fst (GmailGetEmailTool_run service email_id include_body w) \<noteq> format_email data include_body \<and>
   (messages_get_execute service email_id (remote w) = (Inr message, r') \<longrightarrow>
      fst (GmailGetEmailTool_run service email_id include_body w) =
        ''Error in retrieving email '' @ email_id @
        '': GmailGetEmailTool._parse_email() takes 2 positional arguments but 3 were given'') \<and>
   (messages_get_execute service email_id (remote w) = (Inl e, r') \<longrightarrow>
      fst (GmailGetEmailTool_run service email_id include_body w) =
        handle_error e (''retrieving email '' @ email_id))"
proof -
  obtain res r1 where g: "messages_get_execute service email_id (remote w) = (res, r1)"
    by (cases "messages_get_execute service email_id (remote w)")
  show ?thesis
  proof (cases res)
    case (Inl e1)
    with g have "fst (GmailGetEmailTool_run service email_id include_body w) =
        handle_error e1 (''retrieving email '' @ email_id)"
      by (simp add: GmailGetEmailTool_run_def users_messages_get_def)
    with g Inl show ?thesis
      by (auto simp: handle_error_not_format)
  next
    case (Inr m1)
    with g have "fst (GmailGetEmailTool_run service email_id include_body w) =
        handle_error (PyError ''TypeError''
           ''GmailGetEmailTool._parse_email() takes 2 positional arguments but 3 were given'')
          (''retrieving email '' @ email_id)"
      by (simp add: GmailGetEmailTool_run_def users_messages_get_def arity_error)
    with g Inr show ?thesis
      by (auto simp: handle_error_not_format simp del: handle_error.simps)
         (simp_all)
  qed
qed

theorem get_email_never_returns_content_witness:
  "messages_get_execute example_service ''18c7'' (remote example_world) = (Inr example_message, ()) \<and>
   parse_email (PyMessage example_message) = Inr example_data \<and>
   fst (GmailGetEmailTool_run example_service ''18c7'' True example_world) =
     ''Error in retrieving email 18c7: GmailGetEmailTool._parse_email() takes 2 positional arguments but 3 were given'' \<and>
   fst (GmailGetEmailTool_run example_service ''18c7'' True example_world) \<noteq>
     format_email example_data True \<and>
   messages_get_execute missing_service ''18c7'' (remote example_world) =
     (Inl (HttpError (Some 404) ''Not Found''), ()) \<and>
   fst (GmailGetEmailTool_run missing_service ''18c7'' True example_world) =
     handle_error (HttpError (Some 404) ''Not Found'') ''retrieving email 18c7''"
proof -
  have h1: "messages_get_execute example_service ''18c7'' (remote example_world) = (Inr example_message, ())"
    by (simp add: example_service_def)
  have h2: "messages_get_execute missing_service ''18c7'' (remote example_world) =
     (Inl (HttpError (Some 404) ''Not Found''), ())"
    by (simp add: missing_service_def)
  have p: "parse_email (PyMessage example_message) = Inr example_data"
    by (simp add: example_message_def example_data_def header_value_def parse_email_body_def
        strip_def whitespace_def)
  note th1 = get_email_never_returns_content[of example_service "''18c7''" True example_world
      example_data example_message "()"]
  note th2 = get_email_never_returns_content[of missing_service "''18c7''" True example_world
      example_data example_message "()" "HttpError (Some 404) ''Not Found''"]
  have r1: "fst (GmailGetEmailTool_run example_service ''18c7'' True example_world) =
     ''Error in retrieving email 18c7: GmailGetEmailTool._parse_email() takes 2 positional arguments but 3 were given''"
    using th1[THEN conjunct2, THEN conjunct2, THEN conjunct1] h1 by simp
  have r2: "fst (GmailGetEmailTool_run example_service ''18c7'' True example_world) \<noteq>
     format_email example_data True"
    by (rule th1[THEN conjunct2, THEN conjunct1])
  have r3: "fst (GmailGetEmailTool_run missing_service ''18c7'' True example_world) =
     handle_error (HttpError (Some 404) ''Not Found'') ''retrieving email 18c7''"
    using th2[THEN conjunct2, THEN conjunct2, THEN conjunct2] h2 by simp
  from h1 p r1 r2 h2 r3 show ?thesis by (intro conjI)
qed

text \<open>
  The claim as stated fails: the remote service answers the request for the message with
  HTTP 404; the result is \<open>Error: Resource not found in retrieving email 18c7\<close>, which
  does not have the form \<open>Error in retrieving email 18c7: ...\<close>.
\<close>

theorem get_email_error_form_counterexample:
  "GmailGetEmailTool_run missing_service ''18c7'' True example_world =
     (''Error: Resource not found in retrieving email 18c7'',
      \<lparr>remote = (), api_log = [MessagesGet ''18c7'']\<rparr>) \<and>
   \<not> prefix ''Error in retrieving email 18c7: ''
        (fst (GmailGetEmailTool_run missing_service ''18c7'' True example_world))"
  by (simp add: GmailGetEmailTool_run_def users_messages_get_def missing_service_def
      example_world_def)

subsection \<open>C10: the transient fields at the end of a turn\<close>

text \<open>
  C10. The update of the direct-answer branch (\<open>respond_conversationally\<close>) and every
  update a delegation node returns, on success and on error, set \<open>current_task\<close> and
  \<open>delegated_to\<close> to \<open>None\<close> and \<open>task_complete\<close> to true. An update of the orchestrator node
  is such an update or the update of its delegation branch, the only one whose
  \<open>delegated_to\<close> is not \<open>None\<close>. So the state of every run of the graph that completes
  has the transient fields cleared.
\<close>

theorem transient_fields_cleared:
  "(respond_conversationally self msgs w = (Inr update_r, w_r) \<longrightarrow> cleared update_r) \<and>
   (delegation_node self agent_name state_d w = Some (Inr update_d, w_d) \<longrightarrow> cleared update_d) \<and>
   (orchestrator_node self state w = (Inr update_o, w_o) \<longrightarrow>
      cleared update_o \<or>
      (\<exists>d task. d \<noteq> [] \<and> last (messages state) = HumanMessage task \<and>
                should_delegate self task = Some d \<and> update_o = delegation_update d task)) \<and>
   delegated_to (delegation_update delegate_to user_message) = Some delegate_to \<and>
   (graph_invoke self nodes state w = Some (Inr final, w_f) \<longrightarrow> cleared final)"
  using respond_cleared[of self msgs w update_r w_r]
    delegation_node_cleared[of self agent_name state_d w update_d w_d]
    orchestrator_node_cases[of self state w update_o w_o]
    delegated_to_delegation_update[of delegate_to user_message]
    graph_invoke_cleared[of self nodes state w final w_f]
  by blast

theorem transient_fields_cleared_witness:
  \<open>respond_conversationally example_orchestrator [HumanMessage ''What is the capital of France?''] () =
     (Inr \<lparr>messages = [AIMessage ''Paris'' []], current_task = None, delegated_to = None,
            task_complete = True\<rparr>, ()) \<and>
   cleared \<lparr>messages = [AIMessage ''Paris'' []], current_task = None, delegated_to = None,
            task_complete = True\<rparr> \<and>
   delegation_node example_orchestrator ''calendar''
       (apply_update scenario_A_input (delegation_update ''calendar'' scenario_A_message)) () =
     Some (Inr \<lparr>messages =
                  [AIMessage ''Calendar task completed:\<newline>\<newline>Created event Team Standup'' []],
                current_task = None, delegated_to = None, task_complete = True\<rparr>, ()) \<and>
   orchestrator_node example_orchestrator scenario_A_input () =
     (Inr (delegation_update ''calendar'' scenario_A_message), ()) \<and>
   \<not> cleared (delegation_update ''calendar'' scenario_A_message) \<and>
   graph_invoke example_orchestrator factory_nodes scenario_A_input () =
     Some (Inr (apply_update
                  (apply_update scenario_A_input (delegation_update ''calendar'' scenario_A_message))
                  \<lparr>messages =
                     [AIMessage ''Calendar task completed:\<newline>\<newline>Created event Team Standup'' []],
                   current_task = None, delegated_to = None, task_complete = True\<rparr>), ()) \<and>
   cleared (apply_update
              (apply_update scenario_A_input (delegation_update ''calendar'' scenario_A_message))
              \<lparr>messages =
                 [AIMessage ''Calendar task completed:\<newline>\<newline>Created event Team Standup'' []],
               current_task = None, delegated_to = None, task_complete = True\<rparr>)\<close>
proof -
  have sa: "sub_agents example_orchestrator =
              sub_agents (create_orchestrator_with_agents raising_agent answering_agent plain_llm)"
    by (simp add: example_orchestrator_def)
  have r: "respond_conversationally example_orchestrator [HumanMessage ''What is the capital of France?''] () =
     (Inr \<lparr>messages = [AIMessage ''Paris'' []], current_task = None, delegated_to = None,
            task_complete = True\<rparr>, ())"
    by (simp add: respond_conversationally_def example_orchestrator_def plain_llm_def
        create_orchestrator_with_agents_def add_sub_agent_def ConversationalOrchestrator_init_def)
  have o: "orchestrator_node example_orchestrator scenario_A_input () =
     (Inr (delegation_update ''calendar'' scenario_A_message), ())"
    by (rule scenario_A_node[OF _ _ sa]) (simp_all add: scenario_A_input_def)
  have d: \<open>delegation_node example_orchestrator ''calendar''
       (apply_update scenario_A_input (delegation_update ''calendar'' scenario_A_message)) () =
     Some (Inr \<lparr>messages =
                  [AIMessage ''Calendar task completed:\<newline>\<newline>Created event Team Standup'' []],
                current_task = None, delegated_to = None, task_complete = True\<rparr>, ())\<close>
    by (simp add: delegation_node_eq sa factory_sub_agents answering_agent_def title_calendar)
  have g: \<open>graph_invoke example_orchestrator factory_nodes scenario_A_input () =
     Some (Inr (apply_update
                  (apply_update scenario_A_input (delegation_update ''calendar'' scenario_A_message))
                  \<lparr>messages =
                     [AIMessage ''Calendar task completed:\<newline>\<newline>Created event Team Standup'' []],
                   current_task = None, delegated_to = None, task_complete = True\<rparr>), ())\<close>
    using graph_invoke_delegated[OF o, of "''calendar''" factory_nodes] d
    by (simp add: delegated_to_delegation_update factory_nodes_def)
  note th = transient_fields_cleared[of example_orchestrator
      "[HumanMessage ''What is the capital of France?'']" "()"
      "\<lparr>messages = [AIMessage ''Paris'' []], current_task = None, delegated_to = None,
        task_complete = True\<rparr>" "()"
      "''calendar''"
      "apply_update scenario_A_input (delegation_update ''calendar'' scenario_A_message)"
      "\<lparr>messages =
          [AIMessage (''Calendar task completed:'' @ [CHR 0x0A, CHR 0x0A] @ ''Created event Team Standup'') []],
        current_task = None, delegated_to = None, task_complete = True\<rparr>" "()"
      scenario_A_input "delegation_update ''calendar'' scenario_A_message" "()"
      "''calendar''" scenario_A_message factory_nodes
      "apply_update
         (apply_update scenario_A_input (delegation_update ''calendar'' scenario_A_message))
         \<lparr>messages =
            [AIMessage (''Calendar task completed:'' @ [CHR 0x0A, CHR 0x0A] @ ''Created event Team Standup'') []],
          current_task = None, delegated_to = None, task_complete = True\<rparr>" "()"]
  have c1: "cleared \<lparr>messages = [AIMessage ''Paris'' []], current_task = None, delegated_to = None,
            task_complete = True\<rparr>"
    using th[THEN conjunct1] r by simp
  have c3: \<open>cleared (apply_update
              (apply_update scenario_A_input (delegation_update ''calendar'' scenario_A_message))
              \<lparr>messages =
                 [AIMessage ''Calendar task completed:\<newline>\<newline>Created event Team Standup'' []],
               current_task = None, delegated_to = None, task_complete = True\<rparr>)\<close>
    using th[THEN conjunct2, THEN conjunct2, THEN conjunct2, THEN conjunct2] g by simp
  have n: "\<not> cleared (delegation_update ''calendar'' scenario_A_message)"
    by (simp add: cleared_def delegation_update_eq Let_def)
  from r c1 d o n g c3 show ?thesis by (intro conjI)
qed

end
